theory Spec2Isabelle
  imports Main "HOL-Library.Multiset" "HOL-Library.Char_ord" "HOL-Library.List_Lexorder"
begin

section \<open>Package model: the values exchanged between the layers\<close>

text \<open>
  Modelled from the spec: package \<open>internal/model\<close> is not among the sources; its types are
  reconstructed from section 3 and section 7 of the specification and from the fields and
  constants that \<open>service\<close> and \<open>repository\<close> use. A pull-request status is one of OPEN and
  MERGED, an error code is one of the six kinds of section 7.
\<close>

datatype PullRequestStatus = StatusOpen | StatusMerged

datatype ErrorCode =
    ErrorCodeTeamExists
  | ErrorCodePRExists
  | ErrorCodePRMerged
  | ErrorCodeNotAssigned
  | ErrorCodeNoCandidate
  | ErrorCodeNotFound

text \<open>Timestamps are instants on a discrete time line.\<close>

type_synonym time = int

record TeamMember =
  m_UserID :: string
  m_Username :: string
  m_IsActive :: bool


record User =
  UserID :: string
  Username :: string
  TeamName :: string
  IsActive :: bool

record PullRequest =
  ID :: string
  Name :: string
  AuthorID :: string
  Status :: PullRequestStatus
  AssignedReviewers :: "string list"
  CreatedAt :: "time option"
  MergedAt :: "time option"

record PullRequestShort =
  s_ID :: string
  s_Name :: string
  s_AuthorID :: string
  s_Status :: PullRequestStatus

section \<open>Errors\<close>

text \<open>
  A Go \<open>error\<close> value is one of the five sentinels of package \<open>repository\<close>, a
  \<open>*DomainError\<close> of package \<open>service\<close> (code and message), or another opaque error (an
  \<open>errors.New\<close> value, or what the store reports for a violated constraint).
\<close>

datatype error =
    ErrTeamExists
  | ErrUserNotFound
  | ErrTeamNotFound
  | ErrPRExists
  | ErrPRNotFound
  | ErrOther string
  | DomainError ErrorCode string

definition NewDomainError :: "ErrorCode \<Rightarrow> string \<Rightarrow> error" where
  "NewDomainError code msg = DomainError code msg"

fun AsDomainError :: "error \<Rightarrow> (ErrorCode \<times> string) option" where
  "AsDomainError (DomainError code msg) = Some (code, msg)"
| "AsDomainError _ = None"

section \<open>The relational store\<close>

text \<open>
  The four tables of \<open>schemaSQL\<close>, each a list of rows in storage order. The constraints of
  the schema (primary keys, foreign keys) are checked by the statements that insert or
  update rows, as the store does; \<open>wf_db\<close> states them. The store answers every
  statement: a lost connection or a cancelled context, which the Go code hands on as an
  opaque error, has no counterpart here, so \<open>RemoveReviewer\<close> and the queries that
  only read cannot fail. \<open>ORDER BY\<close> on a text column is the byte-wise order of strings.
\<close>

record pr_row =
  r_id :: string
  r_name :: string
  r_author_id :: string
  r_status :: PullRequestStatus
  r_created_at :: time
  r_merged_at :: "time option"

record database =
  teams :: "string list"
  users :: "User list"
  pull_requests :: "pr_row list"
  pull_request_reviewers :: "(string \<times> string) list"

definition wf_db :: "database \<Rightarrow> bool" where
  "wf_db db \<longleftrightarrow>
     distinct (teams db) \<and>
     distinct (map UserID (users db)) \<and>
     distinct (map r_id (pull_requests db)) \<and>
     distinct (pull_request_reviewers db) \<and>
     (\<forall>u \<in> set (users db). TeamName u \<in> set (teams db)) \<and>
     (\<forall>p \<in> set (pull_requests db). r_author_id p \<in> UserID ` set (users db)) \<and>
     (\<forall>b \<in> set (pull_request_reviewers db).
        fst b \<in> r_id ` set (pull_requests db) \<and> snd b \<in> UserID ` set (users db))"

definition team_exists :: "database \<Rightarrow> string \<Rightarrow> bool" where
  "team_exists db teamName \<longleftrightarrow> teamName \<in> set (teams db)"

definition user_exists :: "database \<Rightarrow> string \<Rightarrow> bool" where
  "user_exists db userID \<longleftrightarrow> userID \<in> UserID ` set (users db)"

definition pr_exists :: "database \<Rightarrow> string \<Rightarrow> bool" where
  "pr_exists db prID \<longleftrightarrow> prID \<in> r_id ` set (pull_requests db)"

text \<open>The reviewer ids bound to a pull request, \<open>ORDER BY reviewer_id\<close>.\<close>

definition reviewers_of :: "database \<Rightarrow> string \<Rightarrow> string list" where
  "reviewers_of db prID =
     sort (map snd (filter (\<lambda>b. fst b = prID) (pull_request_reviewers db)))"

subsection \<open>Repository.CreateTeam\<close>

text \<open>\<open>INSERT INTO users ... ON CONFLICT (id) DO UPDATE SET username, is_active, team_name\<close>.\<close>

definition upsert_user :: "string \<Rightarrow> database \<Rightarrow> TeamMember \<Rightarrow> database" where
  "upsert_user teamName tx m =
     (let row = \<lparr>UserID = m_UserID m, Username = m_Username m, TeamName = teamName,
                 IsActive = m_IsActive m\<rparr>
      in if user_exists tx (m_UserID m)
         then tx\<lparr>users := map (\<lambda>u. if UserID u = m_UserID m then row else u) (users tx)\<rparr>
         else tx\<lparr>users := users tx @ [row]\<rparr>)"


subsection \<open>Repository.GetTeam\<close>


subsection \<open>Repository.SetUserActive, Repository.GetUser, Repository.GetActiveUsersByTeam\<close>

definition Repository_SetUserActive ::
  "database \<Rightarrow> string \<Rightarrow> bool \<Rightarrow> (error + User) \<times> database" where
  "Repository_SetUserActive db userID active =
     (case find (\<lambda>u. UserID u = userID) (users db) of
        None \<Rightarrow> (Inl ErrUserNotFound, db)
      | Some u \<Rightarrow>
          (Inr (u\<lparr>IsActive := active\<rparr>),
           db\<lparr>users := map (\<lambda>u. if UserID u = userID then u\<lparr>IsActive := active\<rparr> else u)
                          (users db)\<rparr>))"

definition Repository_GetUser :: "database \<Rightarrow> string \<Rightarrow> error + User" where
  "Repository_GetUser db userID =
     (case find (\<lambda>u. UserID u = userID) (users db) of
        None \<Rightarrow> Inl ErrUserNotFound
      | Some u \<Rightarrow> Inr u)"

definition Repository_GetActiveUsersByTeam :: "database \<Rightarrow> string \<Rightarrow> error + User list" where
  "Repository_GetActiveUsersByTeam db teamName =
     (if \<not> team_exists db teamName then Inl ErrTeamNotFound
      else Inr (filter (\<lambda>u. TeamName u = teamName \<and> IsActive u) (users db)))"

subsection \<open>Repository.CreatePRWithReviewers\<close>

text \<open>
  One \<open>INSERT INTO pull_request_reviewers\<close>: the store refuses a duplicate key and a
  reviewer or pull request that does not exist.
\<close>

fun insert_reviewers :: "database \<Rightarrow> string \<Rightarrow> string list \<Rightarrow> error + database" where
  "insert_reviewers tx prID [] = Inr tx"
| "insert_reviewers tx prID (reviewer # rest) =
     (if (prID, reviewer) \<in> set (pull_request_reviewers tx)
         \<or> \<not> pr_exists tx prID \<or> \<not> user_exists tx reviewer
      then Inl (ErrOther ''constraint violation on pull_request_reviewers'')
      else insert_reviewers
             (tx\<lparr>pull_request_reviewers := pull_request_reviewers tx @ [(prID, reviewer)]\<rparr>)
             prID rest)"

definition Repository_CreatePRWithReviewers ::
  "time \<Rightarrow> database \<Rightarrow> PullRequest \<Rightarrow> error option \<times> database" where
  "Repository_CreatePRWithReviewers now db pr =
     (if pr_exists db (ID pr) then (Some ErrPRExists, db)
      else if \<not> user_exists db (AuthorID pr)
      then (Some (ErrOther ''constraint violation on pull_requests''), db)
      else let tx = db\<lparr>pull_requests := pull_requests db @
                        [\<lparr>r_id = ID pr, r_name = Name pr, r_author_id = AuthorID pr,
                          r_status = Status pr, r_created_at = now, r_merged_at = None\<rparr>]\<rparr>
           in case insert_reviewers tx (ID pr) (AssignedReviewers pr) of
                Inl err \<Rightarrow> (Some err, db)
              | Inr tx' \<Rightarrow> (None, tx'))"

subsection \<open>Repository.GetPR, Repository.MarkPRMerged\<close>

definition read_pr :: "database \<Rightarrow> pr_row \<Rightarrow> PullRequest" where
  "read_pr db row =
     \<lparr>ID = r_id row, Name = r_name row, AuthorID = r_author_id row, Status = r_status row,
      AssignedReviewers = reviewers_of db (r_id row),
      CreatedAt = Some (r_created_at row), MergedAt = r_merged_at row\<rparr>"

definition Repository_GetPR :: "database \<Rightarrow> string \<Rightarrow> error + PullRequest" where
  "Repository_GetPR db prID =
     (case find (\<lambda>p. r_id p = prID) (pull_requests db) of
        None \<Rightarrow> Inl ErrPRNotFound
      | Some row \<Rightarrow> Inr (read_pr db row))"

text \<open>\<open>UPDATE ... SET status = 'MERGED', merged_at = COALESCE(merged_at, now())\<close>.\<close>

definition mark_merged :: "time \<Rightarrow> pr_row \<Rightarrow> pr_row" where
  "mark_merged now row =
     row\<lparr>r_status := StatusMerged,
         r_merged_at := (case r_merged_at row of None \<Rightarrow> Some now | Some t \<Rightarrow> Some t)\<rparr>"

definition Repository_MarkPRMerged ::
  "time \<Rightarrow> database \<Rightarrow> string \<Rightarrow> (error + PullRequest) \<times> database" where
  "Repository_MarkPRMerged now db prID =
     (case find (\<lambda>p. r_id p = prID) (pull_requests db) of
        None \<Rightarrow> (Inl ErrPRNotFound, db)
      | Some row \<Rightarrow>
          (let db' = db\<lparr>pull_requests :=
                         map (\<lambda>p. if r_id p = prID then mark_merged now p else p)
                           (pull_requests db)\<rparr>
           in (Inr (read_pr db' (mark_merged now row)), db')))"

subsection \<open>Repository.ReassignReviewer, Repository.RemoveReviewer\<close>

text \<open>
  \<open>UPDATE pull_request_reviewers SET reviewer_id = $3 WHERE pull_request_id = $1 AND
  reviewer_id = $2\<close>. With no matching row nothing is affected and the function returns its
  own error; with a matching row the store refuses a new key that exists already and a
  new reviewer that is no user.
\<close>

definition Repository_ReassignReviewer ::
  "database \<Rightarrow> string \<Rightarrow> string \<Rightarrow> string \<Rightarrow> error option \<times> database" where
  "Repository_ReassignReviewer db prID oldReviewerID newReviewerID =
     (let affected = length (filter (\<lambda>b. b = (prID, oldReviewerID)) (pull_request_reviewers db))
      in if affected = 0 then (Some (ErrOther ''no reviewer row updated''), db)
         else if (newReviewerID \<noteq> oldReviewerID
                    \<and> (prID, newReviewerID) \<in> set (pull_request_reviewers db))
                 \<or> \<not> user_exists db newReviewerID
         then (Some (ErrOther ''constraint violation on pull_request_reviewers''), db)
         else (None,
               db\<lparr>pull_request_reviewers :=
                    map (\<lambda>b. if b = (prID, oldReviewerID) then (prID, newReviewerID) else b)
                      (pull_request_reviewers db)\<rparr>))"

definition Repository_RemoveReviewer :: "database \<Rightarrow> string \<Rightarrow> string \<Rightarrow> database" where
  "Repository_RemoveReviewer db prID reviewerID =
     db\<lparr>pull_request_reviewers :=
          filter (\<lambda>b. b \<noteq> (prID, reviewerID)) (pull_request_reviewers db)\<rparr>"

subsection \<open>Repository.GetPRsForReviewer\<close>

text \<open>
  The join of \<open>pull_requests\<close> with the bindings of one reviewer, \<open>ORDER BY p.created_at
  DESC\<close> (rows of equal creation time in storage order).
\<close>

definition joined_rows :: "database \<Rightarrow> string \<Rightarrow> pr_row list" where
  "joined_rows db userID =
     concat (map (\<lambda>p. map (\<lambda>b. p)
                          (filter (\<lambda>b. b = (r_id p, userID)) (pull_request_reviewers db)))
               (pull_requests db))"

definition short_of :: "pr_row \<Rightarrow> PullRequestShort" where
  "short_of p =
     \<lparr>s_ID = r_id p, s_Name = r_name p, s_AuthorID = r_author_id p, s_Status = r_status p\<rparr>"

definition Repository_GetPRsForReviewer ::
  "database \<Rightarrow> string \<Rightarrow> PullRequestShort list \<times> error option" where
  "Repository_GetPRsForReviewer db userID =
     (map short_of (sort_key (\<lambda>p. - r_created_at p) (joined_rows db userID)), None)"

section \<open>Package service\<close>

subsection \<open>The source of randomness and Service.shuffle\<close>

text \<open>
  The generator \<open>s.rand\<close> is the sequence of raw values it will still produce:
  \<open>Intn n\<close> reduces the next one below \<open>n\<close> and advances. Every sequence of results that
  \<open>rand.Intn\<close> can return comes from some generator.
\<close>

type_synonym rng = "nat \<Rightarrow> nat"

definition Intn :: "rng \<Rightarrow> nat \<Rightarrow> nat \<times> rng" where
  "Intn g n = (g 0 mod n, \<lambda>k. g (Suc k))"

text \<open>
  \<open>for i := range ids { j := s.rand.Intn(i + 1); ids[i], ids[j] = ids[j], ids[i] }\<close>:
  \<open>shuffle_from n i\<close> runs the \<open>n\<close> iterations that start at index \<open>i\<close>.
\<close>

fun shuffle_from :: "nat \<Rightarrow> nat \<Rightarrow> rng \<Rightarrow> string list \<Rightarrow> string list \<times> rng" where
  "shuffle_from 0 i g ids = (ids, g)"
| "shuffle_from (Suc n) i g ids =
     (case Intn g (i + 1) of
        (j, g') \<Rightarrow> shuffle_from n (Suc i) g' (ids[i := ids ! j, j := ids ! i]))"

definition shuffle :: "rng \<Rightarrow> string list \<Rightarrow> string list \<times> rng" where
  "shuffle g ids = shuffle_from (length ids) 0 g ids"

text \<open>A service is its store and its generator.\<close>

type_synonym service = "database \<times> rng"

subsection \<open>Service.AddTeam, Service.GetUserReviews, Service.MergePR\<close>


definition Service_GetUserReviews ::
  "string \<Rightarrow> service \<Rightarrow> string \<times> PullRequestShort list \<times> error option" where
  "Service_GetUserReviews userID s =
     (case s of (db, g) \<Rightarrow>
        (case Repository_GetPRsForReviewer db userID of (prs, err) \<Rightarrow> (userID, prs, err)))"

definition Service_MergePR ::
  "time \<Rightarrow> string \<Rightarrow> service \<Rightarrow> (error + PullRequest) \<times> service" where
  "Service_MergePR now prID s =
     (case s of (db, g) \<Rightarrow>
        (case Repository_MarkPRMerged now db prID of
           (Inl err, db') \<Rightarrow>
             (if err = ErrPRNotFound
              then (Inl (NewDomainError ErrorCodeNotFound ''pull request not found''), (db', g))
              else (Inl err, (db', g)))
         | (Inr pr, db') \<Rightarrow> (Inr pr, (db', g))))"

subsection \<open>Service.CreatePR\<close>

record CreatePRInput =
  in_ID :: string
  in_Name :: string
  in_AuthorID :: string

definition Service_CreatePR ::
  "time \<Rightarrow> CreatePRInput \<Rightarrow> service \<Rightarrow> (error + PullRequest) \<times> service" where
  "Service_CreatePR now inp s =
     (case s of (db, g) \<Rightarrow>
        (case Repository_GetUser db (in_AuthorID inp) of
           Inl err \<Rightarrow>
             (if err = ErrUserNotFound
              then (Inl (NewDomainError ErrorCodeNotFound ''author not found''), s)
              else (Inl err, s))
         | Inr author \<Rightarrow>
             (case Repository_GetActiveUsersByTeam db (TeamName author) of
                Inl err \<Rightarrow>
                  (if err = ErrTeamNotFound
                   then (Inl (NewDomainError ErrorCodeNotFound ''team not found''), s)
                   else (Inl err, s))
              | Inr candidates \<Rightarrow>
                  (case shuffle g
                          (map UserID (filter (\<lambda>u. UserID u \<noteq> UserID author) candidates)) of
                     (shuffled, g') \<Rightarrow>
                       (let reviewerIDs =
                              (if length shuffled > 2 then take 2 shuffled else shuffled);
                            pr = \<lparr>ID = in_ID inp, Name = in_Name inp,
                                  AuthorID = in_AuthorID inp, Status = StatusOpen,
                                  AssignedReviewers = reviewerIDs,
                                  CreatedAt = None, MergedAt = None\<rparr>
                        in case Repository_CreatePRWithReviewers now db pr of
                             (Some err, db') \<Rightarrow>
                               (if err = ErrPRExists
                                then (Inl (NewDomainError ErrorCodePRExists
                                             ''PR id already exists''), (db', g'))
                                else (Inl err, (db', g')))
                           | (None, db') \<Rightarrow> (Repository_GetPR db' (in_ID inp), (db', g')))))))"

subsection \<open>Service.ReassignReviewer\<close>

record ReassignResult =
  rr_PR :: PullRequest
  rr_ReplacedBy :: string

text \<open>
  The candidate pool: the ids of \<open>candidates\<close> outside \<open>assignedSet\<close>, which holds the
  assigned reviewers, the old reviewer and the author.
\<close>

definition eligible_ids :: "PullRequest \<Rightarrow> string \<Rightarrow> User list \<Rightarrow> string list" where
  "eligible_ids pr oldUserID candidates =
     (let assignedSet = insert (AuthorID pr) (insert oldUserID (set (AssignedReviewers pr)))
      in map UserID (filter (\<lambda>u. UserID u \<notin> assignedSet) candidates))"

definition Service_ReassignReviewer ::
  "string \<Rightarrow> string \<Rightarrow> service \<Rightarrow> (error + ReassignResult) \<times> service" where
  "Service_ReassignReviewer prID oldUserID s =
     (case s of (db, g) \<Rightarrow>
        (case Repository_GetPR db prID of
           Inl err \<Rightarrow>
             (if err = ErrPRNotFound
              then (Inl (NewDomainError ErrorCodeNotFound ''pull request not found''), s)
              else (Inl err, s))
         | Inr pr \<Rightarrow>
             if Status pr = StatusMerged
             then (Inl (NewDomainError ErrorCodePRMerged ''cannot reassign on merged PR''), s)
             else
               (case Repository_GetUser db oldUserID of
                  Inl err \<Rightarrow>
                    (if err = ErrUserNotFound
                     then (Inl (NewDomainError ErrorCodeNotFound ''user not found''), s)
                     else (Inl err, s))
                | Inr oldUser \<Rightarrow>
                    if oldUserID \<notin> set (AssignedReviewers pr)
                    then (Inl (NewDomainError ErrorCodeNotAssigned
                                 ''reviewer is not assigned to this PR''), s)
                    else
                      (case Repository_GetActiveUsersByTeam db (TeamName oldUser) of
                         Inl err \<Rightarrow>
                           (if err = ErrTeamNotFound
                            then (Inl (NewDomainError ErrorCodeNotFound ''team not found''), s)
                            else (Inl err, s))
                       | Inr candidates \<Rightarrow>
                           (let eligible = eligible_ids pr oldUserID candidates
                            in if length eligible = 0
                               then (Inl (NewDomainError ErrorCodeNoCandidate
                                            ''no active replacement candidate in team''), s)
                               else
                                 (case shuffle g eligible of
                                    (shuffled, g') \<Rightarrow>
                                      (let newReviewer = shuffled ! 0
                                       in case Repository_ReassignReviewer db prID oldUserID
                                                 newReviewer of
                                            (Some err, db') \<Rightarrow> (Inl err, (db', g'))
                                          | (None, db') \<Rightarrow>
                                              (case Repository_GetPR db' prID of
                                                 Inl err \<Rightarrow> (Inl err, (db', g'))
                                               | Inr updated \<Rightarrow>
                                                   (Inr \<lparr>rr_PR = updated,
                                                         rr_ReplacedBy = newReviewer\<rparr>,
                                                    (db', g'))))))))))"

subsection \<open>Service.DeactivateTeamUsersAndReassign\<close>

text \<open>The counters are Go \<open>int\<close>s that only count up from zero.\<close>

record BulkDeactivateResult =
  b_TeamName :: string
  b_Deactivated :: "string list"
  b_ReassignedReviewers :: nat
  b_RemovedReviewers :: nat
  b_AffectedPullRequests :: nat

text \<open>
  The first loop: fetch, check the team, deactivate an active user, record the id.
  The result is the error that stopped the loop (if any), with \<open>res\<close>, \<open>toProcess\<close> and the
  store as they are at that moment.
\<close>

fun deactivate_loop ::
  "string \<Rightarrow> string list \<Rightarrow> BulkDeactivateResult \<Rightarrow> string list \<Rightarrow> database \<Rightarrow>
   error option \<times> BulkDeactivateResult \<times> string list \<times> database" where
  "deactivate_loop teamName [] res toProcess db = (None, res, toProcess, db)"
| "deactivate_loop teamName (uid # rest) res toProcess db =
     (case Repository_GetUser db uid of
        Inl err \<Rightarrow>
          (if err = ErrUserNotFound
           then (Some (NewDomainError ErrorCodeNotFound (''user '' @ uid @ '' not found'')),
                 res, toProcess, db)
           else (Some err, res, toProcess, db))
      | Inr user \<Rightarrow>
          if TeamName user \<noteq> teamName
          then (Some (NewDomainError ErrorCodeNotFound
                        (''user '' @ uid @ '' does not belong to team '' @ teamName)),
                res, toProcess, db)
          else
            (case (if IsActive user then Repository_SetUserActive db uid False
                   else (Inr user, db)) of
               (Inl err, db') \<Rightarrow>
                 (if err = ErrUserNotFound
                  then (Some (NewDomainError ErrorCodeNotFound
                                (''user '' @ uid @ '' not found'')), res, toProcess, db')
                  else (Some err, res, toProcess, db'))
             | (Inr u, db') \<Rightarrow>
                 deactivate_loop teamName rest
                   (res\<lparr>b_Deactivated := b_Deactivated res @ [uid]\<rparr>) (toProcess @ [uid]) db'))"

text \<open>
  The inner loop of the second phase, over the pull requests of one user; \<open>affectedPRs\<close>
  is the key set of the Go map.
\<close>

fun reassign_prs ::
  "string \<Rightarrow> PullRequestShort list \<Rightarrow> BulkDeactivateResult \<Rightarrow> string set \<Rightarrow> service \<Rightarrow>
   error option \<times> BulkDeactivateResult \<times> string set \<times> service" where
  "reassign_prs uid [] res affectedPRs s = (None, res, affectedPRs, s)"
| "reassign_prs uid (prShort # rest) res affectedPRs s =
     (if s_Status prShort \<noteq> StatusOpen then reassign_prs uid rest res affectedPRs s
      else
        (case Service_ReassignReviewer (s_ID prShort) uid s of
           (Inr rr, s') \<Rightarrow>
             reassign_prs uid rest
               (res\<lparr>b_ReassignedReviewers := b_ReassignedReviewers res + 1\<rparr>)
               (insert (ID (rr_PR rr)) affectedPRs) s'
         | (Inl err, s') \<Rightarrow>
             (case AsDomainError err of
                Some (code, msg) \<Rightarrow>
                  if code = ErrorCodeNoCandidate
                  then
                    (case s' of (db', g') \<Rightarrow>
                       reassign_prs uid rest
                         (res\<lparr>b_RemovedReviewers := b_RemovedReviewers res + 1\<rparr>)
                         (insert (s_ID prShort) affectedPRs)
                         (Repository_RemoveReviewer db' (s_ID prShort) uid, g'))
                  else (Some err, res, affectedPRs, s')
              | None \<Rightarrow> (Some err, res, affectedPRs, s'))))"

text \<open>The outer loop of the second phase, over \<open>toProcess\<close>.\<close>

fun reassign_loop ::
  "string list \<Rightarrow> BulkDeactivateResult \<Rightarrow> string set \<Rightarrow> service \<Rightarrow>
   error option \<times> BulkDeactivateResult \<times> string set \<times> service" where
  "reassign_loop [] res affectedPRs s = (None, res, affectedPRs, s)"
| "reassign_loop (uid # rest) res affectedPRs s =
     (case Service_GetUserReviews uid s of
        (_, prs, Some err) \<Rightarrow> (Some err, res, affectedPRs, s)
      | (_, prs, None) \<Rightarrow>
          (case reassign_prs uid prs res affectedPRs s of
             (Some err, res', affectedPRs', s') \<Rightarrow> (Some err, res', affectedPRs', s')
           | (None, res', affectedPRs', s') \<Rightarrow> reassign_loop rest res' affectedPRs' s'))"

definition Service_DeactivateTeamUsersAndReassign ::
  "string \<Rightarrow> string list \<Rightarrow> service \<Rightarrow>
   (BulkDeactivateResult \<times> error option) \<times> service" where
  "Service_DeactivateTeamUsersAndReassign teamName userIDs s =
     (let res = \<lparr>b_TeamName = teamName, b_Deactivated = [], b_ReassignedReviewers = 0,
                 b_RemovedReviewers = 0, b_AffectedPullRequests = 0\<rparr>
      in if length userIDs = 0 then ((res, None), s)
         else
           (case s of (db, g) \<Rightarrow>
              (case deactivate_loop teamName userIDs res [] db of
                 (Some err, res1, toProcess, db1) \<Rightarrow> ((res1, Some err), (db1, g))
               | (None, res1, toProcess, db1) \<Rightarrow>
                   (case reassign_loop toProcess res1 {} (db1, g) of
                      (Some err, res2, affectedPRs, s2) \<Rightarrow> ((res2, Some err), s2)
                    | (None, res2, affectedPRs, s2) \<Rightarrow>
                        ((res2\<lparr>b_AffectedPullRequests := card affectedPRs\<rparr>, None), s2)))))"

section \<open>Auxiliary notions\<close>


text \<open>
  The candidate pool of a reassignment in the words of the specification: the active users
  on the old reviewer's team, without the assigned reviewers, the old reviewer and the
  author of the pull request.
\<close>

definition candidate_pool :: "database \<Rightarrow> pr_row \<Rightarrow> User \<Rightarrow> User list" where
  "candidate_pool db row oldUser =
     filter (\<lambda>u. TeamName u = TeamName oldUser \<and> IsActive u \<and>
                 UserID u \<notin> set (reviewers_of db (r_id row)) \<and>
                 UserID u \<noteq> UserID oldUser \<and> UserID u \<noteq> r_author_id row)
       (users db)"

text \<open>The other active members of the team of \<open>author\<close>.\<close>

definition other_active :: "database \<Rightarrow> User \<Rightarrow> User list" where
  "other_active db author =
     filter (\<lambda>u. TeamName u = TeamName author \<and> IsActive u \<and> UserID u \<noteq> UserID author)
       (users db)"

text \<open>
  For bulk deactivation: a user id passes the checks of the first loop when its user exists
  and belongs to the team; \<open>deactivate_all\<close> clears the active flag of the listed users and
  leaves every other row as it is; \<open>abort_message\<close> is the message of the NotFound error
  for an id that does not pass.
\<close>

definition valid_member :: "database \<Rightarrow> string \<Rightarrow> string \<Rightarrow> bool" where
  "valid_member db teamName uid =
     (case find (\<lambda>u. UserID u = uid) (users db) of
        None \<Rightarrow> False
      | Some u \<Rightarrow> TeamName u = teamName)"

definition deactivate_all :: "string list \<Rightarrow> database \<Rightarrow> database" where
  "deactivate_all uids db =
     db\<lparr>users := map (\<lambda>u. if UserID u \<in> set uids then u\<lparr>IsActive := False\<rparr> else u) (users db)\<rparr>"

definition abort_message :: "database \<Rightarrow> string \<Rightarrow> string \<Rightarrow> string" where
  "abort_message db teamName uid =
     (if user_exists db uid then ''user '' @ uid @ '' does not belong to team '' @ teamName
      else ''user '' @ uid @ '' not found'')"

text \<open>
  For the second phase of bulk deactivation. \<open>open_reviews db uid\<close> are the OPEN pull requests
  that have \<open>uid\<close> as a reviewer. \<open>loop_post\<close> relates the state before and after the inner
  loop over the pull requests \<open>prs\<close> of user \<open>uid\<close>, with \<open>S\<close> a set of user ids: users, pull
  requests and teams are untouched; no binding of a user of \<open>S\<close> is new; every binding of
  another user than \<open>uid\<close> is kept; no OPEN pull request of \<open>prs\<close> keeps \<open>uid\<close> as a reviewer; the
  two counters together grow by the number of OPEN entries of \<open>prs\<close>, whose ids are added to
  the affected set; the deactivated list and team name are as before; distinct bindings
  stay distinct.
\<close>

definition open_reviews :: "database \<Rightarrow> string \<Rightarrow> pr_row list" where
  "open_reviews db uid =
     filter (\<lambda>p. r_status p = StatusOpen \<and> (r_id p, uid) \<in> set (pull_request_reviewers db))
       (pull_requests db)"

definition loop_post ::
  "string set \<Rightarrow> string \<Rightarrow> PullRequestShort list \<Rightarrow> BulkDeactivateResult \<Rightarrow> string set \<Rightarrow>
   database \<Rightarrow> BulkDeactivateResult \<Rightarrow> string set \<Rightarrow> database \<Rightarrow> bool" where
  "loop_post S uid prs res aff db res' aff' db' \<longleftrightarrow>
     users db' = users db \<and> pull_requests db' = pull_requests db \<and> teams db' = teams db \<and>
     (\<forall>b \<in> set (pull_request_reviewers db'). snd b \<in> S \<longrightarrow> b \<in> set (pull_request_reviewers db)) \<and>
     (\<forall>b \<in> set (pull_request_reviewers db). snd b \<noteq> uid \<longrightarrow> b \<in> set (pull_request_reviewers db')) \<and>
     (\<forall>ps \<in> set prs. s_Status ps = StatusOpen \<longrightarrow>
        (s_ID ps, uid) \<notin> set (pull_request_reviewers db')) \<and>
     b_ReassignedReviewers res' + b_RemovedReviewers res' =
       b_ReassignedReviewers res + b_RemovedReviewers res +
       length (filter (\<lambda>ps. s_Status ps = StatusOpen) prs) \<and>
     aff' = aff \<union> s_ID ` set (filter (\<lambda>ps. s_Status ps = StatusOpen) prs) \<and>
     b_Deactivated res' = b_Deactivated res \<and> b_TeamName res' = b_TeamName res \<and>
     (distinct (pull_request_reviewers db) \<longrightarrow> distinct (pull_request_reviewers db'))"

text \<open>
  \<open>bulk_post\<close> relates the state before and after the outer loop over the user ids \<open>uids\<close>:
  as \<open>loop_post\<close>, with every binding of a user outside \<open>uids\<close> kept, no OPEN pull request
  left with a reviewer of \<open>uids\<close>, the affected set grown by the OPEN pull requests that had
  a reviewer of \<open>uids\<close>, and, for distinct bindings, the two counters together grown by the
  number of such bindings. \<open>zero_result\<close> is the result the operation starts from.
\<close>

definition bulk_post ::
  "string set \<Rightarrow> string list \<Rightarrow> BulkDeactivateResult \<Rightarrow> string set \<Rightarrow> database \<Rightarrow>
   BulkDeactivateResult \<Rightarrow> string set \<Rightarrow> database \<Rightarrow> bool" where
  "bulk_post S uids res aff db res' aff' db' \<longleftrightarrow>
     users db' = users db \<and> pull_requests db' = pull_requests db \<and> teams db' = teams db \<and>
     (\<forall>b \<in> set (pull_request_reviewers db'). snd b \<in> S \<longrightarrow> b \<in> set (pull_request_reviewers db)) \<and>
     (\<forall>b \<in> set (pull_request_reviewers db). snd b \<notin> set uids \<longrightarrow>
        b \<in> set (pull_request_reviewers db')) \<and>
     (\<forall>uid \<in> set uids. open_reviews db' uid = []) \<and>
     aff' = aff \<union> r_id ` set (concat (map (open_reviews db) uids)) \<and>
     b_Deactivated res' = b_Deactivated res \<and> b_TeamName res' = b_TeamName res \<and>
     (distinct (pull_request_reviewers db) \<longrightarrow>
        distinct (pull_request_reviewers db') \<and>
        b_ReassignedReviewers res' + b_RemovedReviewers res' =
          b_ReassignedReviewers res + b_RemovedReviewers res +
          (\<Sum>uid \<in> set uids. length (open_reviews db uid)))"

definition zero_result :: "string \<Rightarrow> BulkDeactivateResult" where
  "zero_result teamName =
     \<lparr>b_TeamName = teamName, b_Deactivated = [], b_ReassignedReviewers = 0,
      b_RemovedReviewers = 0, b_AffectedPullRequests = 0\<rparr>"




section \<open>Example stores\<close>

text \<open>
  Team \<open>core\<close> with the active users a, b, c and d, team \<open>ops\<close> with the inactive user e;
  the open pull request p1 of author a, reviewed by b and c, the merged pull request p2 of
  author b, reviewed by a, and the open pull request p3 of author a, reviewed by e.
\<close>

definition ex_db :: database where
  "ex_db =
     \<lparr>teams = [''core'', ''ops''],
      users =
        [\<lparr>UserID = ''a'', Username = ''A'', TeamName = ''core'', IsActive = True\<rparr>,
         \<lparr>UserID = ''d'', Username = ''D'', TeamName = ''core'', IsActive = True\<rparr>,
         \<lparr>UserID = ''c'', Username = ''C'', TeamName = ''core'', IsActive = True\<rparr>,
         \<lparr>UserID = ''b'', Username = ''B'', TeamName = ''core'', IsActive = True\<rparr>,
         \<lparr>UserID = ''e'', Username = ''E'', TeamName = ''ops'', IsActive = False\<rparr>],
      pull_requests =
        [\<lparr>r_id = ''p1'', r_name = ''one'', r_author_id = ''a'', r_status = StatusOpen,
          r_created_at = 5, r_merged_at = None\<rparr>,
         \<lparr>r_id = ''p2'', r_name = ''two'', r_author_id = ''b'', r_status = StatusMerged,
          r_created_at = 6, r_merged_at = Some 8\<rparr>,
         \<lparr>r_id = ''p3'', r_name = ''three'', r_author_id = ''a'', r_status = StatusOpen,
          r_created_at = 7, r_merged_at = None\<rparr>],
      pull_request_reviewers =
        [(''p1'', ''c''), (''p1'', ''b''), (''p2'', ''a''), (''p3'', ''e'')]\<rparr>"

text \<open>A generator: the raw values 0, 1, 2, ...\<close>

definition ex_rng :: rng where
  "ex_rng = (\<lambda>k. k)"

text \<open>Another generator: the raw value 0 again and again, so that \<open>Intn\<close> always yields 0.\<close>

definition ex_rng0 :: rng where
  "ex_rng0 = (\<lambda>k. 0)"




section \<open>Properties of the store\<close>

lemma wf_ex_db: "wf_db ex_db"
  by (simp add: wf_db_def ex_db_def)

lemma joined_rows_empty:
  "userID \<notin> snd ` set (pull_request_reviewers db) \<Longrightarrow> joined_rows db userID = []"
  by (auto simp: joined_rows_def filter_empty_conv image_iff)

lemma joined_rows_no_user:
  assumes "wf_db db" "\<not> user_exists db userID"
  shows "joined_rows db userID = []"
proof -
  from assms have "userID \<notin> snd ` set (pull_request_reviewers db)"
    by (auto simp: wf_db_def user_exists_def)
  then show ?thesis by (rule joined_rows_empty)
qed

lemma find_map_same_key:
  assumes "\<And>x. key (f x) = key x"
  shows "find (\<lambda>x. key x = k) (map (\<lambda>x. if key x = k then f x else x) xs) =
         map_option f (find (\<lambda>x. key x = k) xs)"
  using assms by (induction xs) auto

lemma r_id_mark_merged [simp]: "r_id (mark_merged now p) = r_id p"
  by (simp add: mark_merged_def)

lemma mark_merged_twice [simp]: "mark_merged now' (mark_merged now p) = mark_merged now p"
  by (cases "r_merged_at p") (simp_all add: mark_merged_def)

lemma find_None_pr: "find (\<lambda>p. r_id p = prID) (pull_requests db) = None \<longleftrightarrow> \<not> pr_exists db prID"
  by (auto simp: find_None_iff pr_exists_def)

lemma reviewers_of_pull_requests_update [simp]:
  "reviewers_of (db\<lparr>pull_requests := ps\<rparr>) prID = reviewers_of db prID"
  by (simp add: reviewers_of_def)

lemma mark_merged_fixed:
  "r_status p = StatusMerged \<Longrightarrow> r_merged_at p \<noteq> None \<Longrightarrow> mark_merged now p = p"
  by (cases "r_merged_at p") (simp_all add: mark_merged_def)

lemma map_mark_merged_fixed:
  assumes "distinct (map r_id ps)" "find (\<lambda>p. r_id p = prID) ps = Some row"
    "mark_merged now row = row"
  shows "map (\<lambda>p. if r_id p = prID then mark_merged now p else p) ps = ps"
proof -
  have "\<And>p. p \<in> set ps \<Longrightarrow> r_id p = prID \<Longrightarrow> p = row"
    using assms(1,2)
    by (induction ps) (auto split: if_splits)
  then have "\<And>p. p \<in> set ps \<Longrightarrow> (if r_id p = prID then mark_merged now p else p) = p"
    using assms(3) by auto
  then show ?thesis by (rule map_idI)
qed



lemma find_None_user:
  "find (\<lambda>u. UserID u = uid) (users db) = None \<longleftrightarrow> \<not> user_exists db uid"
  by (auto simp: find_None_iff user_exists_def)



lemma upsert_user_frame [simp]:
  "teams (upsert_user teamName tx m) = teams tx"
  "pull_requests (upsert_user teamName tx m) = pull_requests tx"
  "pull_request_reviewers (upsert_user teamName tx m) = pull_request_reviewers tx"
  by (simp_all add: upsert_user_def Let_def)

lemma foldl_upsert_frame [simp]:
  "teams (foldl (upsert_user teamName) tx members) = teams tx"
  "pull_requests (foldl (upsert_user teamName) tx members) = pull_requests tx"
  "pull_request_reviewers (foldl (upsert_user teamName) tx members) = pull_request_reviewers tx"
  by (induction members arbitrary: tx) simp_all

lemma GetUser_teams_update [simp]:
  "Repository_GetUser (db\<lparr>teams := ts\<rparr>) uid = Repository_GetUser db uid"
  by (simp add: Repository_GetUser_def)



lemma GetPR_missing:
  "\<not> pr_exists db prID \<Longrightarrow> Repository_GetPR db prID = Inl ErrPRNotFound"
  by (simp add: Repository_GetPR_def find_None_pr [symmetric])

lemma GetPR_found:
  "find (\<lambda>p. r_id p = prID) (pull_requests db) = Some row \<Longrightarrow>
   Repository_GetPR db prID = Inr (read_pr db row)"
  by (simp add: Repository_GetPR_def)

lemma GetUser_missing:
  "\<not> user_exists db uid \<Longrightarrow> Repository_GetUser db uid = Inl ErrUserNotFound"
  by (simp add: Repository_GetUser_def find_None_user [symmetric])

lemma GetUser_found:
  "find (\<lambda>u. UserID u = uid) (users db) = Some u \<Longrightarrow> Repository_GetUser db uid = Inr u"
  by (simp add: Repository_GetUser_def)

lemma find_key_id:
  "find (\<lambda>x. key x = k) xs = Some y \<Longrightarrow> key y = k"
  by (induction xs) (auto split: if_splits)

lemma find_key_mem:
  "find (\<lambda>x. key x = k) xs = Some y \<Longrightarrow> y \<in> set xs"
  by (induction xs) (auto split: if_splits)

lemma read_pr_simps [simp]:
  "ID (read_pr db row) = r_id row"
  "Name (read_pr db row) = r_name row"
  "AuthorID (read_pr db row) = r_author_id row"
  "Status (read_pr db row) = r_status row"
  "AssignedReviewers (read_pr db row) = reviewers_of db (r_id row)"
  "CreatedAt (read_pr db row) = Some (r_created_at row)"
  "MergedAt (read_pr db row) = r_merged_at row"
  by (simp_all add: read_pr_def)

lemma GetActive_found:
  "team_exists db t \<Longrightarrow>
   Repository_GetActiveUsersByTeam db t = Inr (filter (\<lambda>u. TeamName u = t \<and> IsActive u) (users db))"
  by (simp add: Repository_GetActiveUsersByTeam_def)

section \<open>Properties of the shuffle\<close>

text \<open>Whatever the generator yields, the shuffle permutes its argument.\<close>

lemma shuffle_from_mset:
  "i + n \<le> length ids \<Longrightarrow> mset (fst (shuffle_from n i g ids)) = mset ids"
proof (induction n arbitrary: i g ids)
  case 0
  then show ?case by simp
next
  case (Suc n)
  let ?j = "g 0 mod (i + 1)"
  have j: "?j < length ids" and i: "i < length ids"
    using Suc.prems by (auto intro: less_le_trans [OF mod_less_divisor])
  have "mset (ids[i := ids ! ?j, ?j := ids ! i]) = mset ids"
    using mset_swap [OF j i] .
  moreover have "Suc i + n \<le> length (ids[i := ids ! ?j, ?j := ids ! i])"
    using Suc.prems by simp
  ultimately show ?case
    using Suc.IH [of "Suc i" "ids[i := ids ! ?j, ?j := ids ! i]" "\<lambda>k. g (Suc k)"]
    by (simp add: Intn_def)
qed

lemma shuffle_mset: "mset (fst (shuffle g ids)) = mset ids"
  by (simp add: shuffle_def shuffle_from_mset)

lemma shuffle_set: "set (fst (shuffle g ids)) = set ids"
  using shuffle_mset [of g ids] by (metis set_mset_mset)

lemma shuffle_length: "length (fst (shuffle g ids)) = length ids"
  using shuffle_mset [of g ids] by (metis size_mset)

lemma shuffle_distinct: "distinct (fst (shuffle g ids)) = distinct ids"
  using shuffle_mset [of g ids] by (metis mset_eq_imp_distinct_iff)

section \<open>Properties of pull-request creation\<close>

lemma exists_reviewers_update [simp]:
  "pr_exists (tx\<lparr>pull_request_reviewers := bs\<rparr>) prID = pr_exists tx prID"
  "user_exists (tx\<lparr>pull_request_reviewers := bs\<rparr>) uid = user_exists tx uid"
  "team_exists (tx\<lparr>pull_request_reviewers := bs\<rparr>) t = team_exists tx t"
  by (simp_all add: pr_exists_def user_exists_def team_exists_def)

lemma insert_reviewers_ok:
  assumes "pr_exists tx prID" "distinct rs"
    "\<forall>r \<in> set rs. user_exists tx r \<and> (prID, r) \<notin> set (pull_request_reviewers tx)"
  shows "insert_reviewers tx prID rs =
     Inr (tx\<lparr>pull_request_reviewers := pull_request_reviewers tx @ map (Pair prID) rs\<rparr>)"
  using assms
proof (induction rs arbitrary: tx)
  case Nil
  then show ?case by simp
next
  case (Cons r rs)
  let ?tx = "tx\<lparr>pull_request_reviewers := pull_request_reviewers tx @ [(prID, r)]\<rparr>"
  have "insert_reviewers ?tx prID rs =
     Inr (?tx\<lparr>pull_request_reviewers := pull_request_reviewers ?tx @ map (Pair prID) rs\<rparr>)"
    using Cons.prems by (intro Cons.IH) auto
  then show ?case using Cons.prems by simp
qed

lemma wf_no_bindings_of_fresh_pr:
  "wf_db db \<Longrightarrow> \<not> pr_exists db prID \<Longrightarrow>
   filter (\<lambda>b. fst b = prID) (pull_request_reviewers db) = []"
  by (auto simp: wf_db_def pr_exists_def filter_empty_conv)

lemma reviewers_of_fresh_insert:
  assumes "filter (\<lambda>b. fst b = prID) bs = []"
  shows "reviewers_of (tx\<lparr>pull_request_reviewers := bs @ map (Pair prID) rs\<rparr>) prID = sort rs"
proof -
  have "filter (\<lambda>b. fst b = prID) (map (Pair prID) rs) = map (Pair prID) rs"
    by (induction rs) simp_all
  then show ?thesis using assms by (simp add: reviewers_of_def o_def)
qed

lemma create_pr_with_reviewers_ok:
  assumes wf: "wf_db db" and fresh: "\<not> pr_exists db (ID pr)"
    and author: "user_exists db (AuthorID pr)"
    and d: "distinct (AssignedReviewers pr)"
    and us: "\<forall>r \<in> set (AssignedReviewers pr). user_exists db r"
  shows "Repository_CreatePRWithReviewers now db pr =
     (None, db\<lparr>pull_requests := pull_requests db @
                  [\<lparr>r_id = ID pr, r_name = Name pr, r_author_id = AuthorID pr,
                    r_status = Status pr, r_created_at = now, r_merged_at = None\<rparr>],
               pull_request_reviewers :=
                  pull_request_reviewers db @ map (Pair (ID pr)) (AssignedReviewers pr)\<rparr>)"
proof -
  let ?row = "\<lparr>r_id = ID pr, r_name = Name pr, r_author_id = AuthorID pr,
                    r_status = Status pr, r_created_at = now, r_merged_at = None\<rparr>"
  let ?tx = "db\<lparr>pull_requests := pull_requests db @ [?row]\<rparr>"
  have none: "\<forall>r. (ID pr, r) \<notin> set (pull_request_reviewers db)"
    using wf_no_bindings_of_fresh_pr [OF wf fresh] by (auto simp: filter_empty_conv)
  have "insert_reviewers ?tx (ID pr) (AssignedReviewers pr) =
     Inr (?tx\<lparr>pull_request_reviewers :=
              pull_request_reviewers ?tx @ map (Pair (ID pr)) (AssignedReviewers pr)\<rparr>)"
    using d us none by (intro insert_reviewers_ok) (auto simp: pr_exists_def user_exists_def)
  then show ?thesis using fresh author
    by (simp add: Repository_CreatePRWithReviewers_def Let_def)
qed

lemma find_snoc_fresh:
  "k \<notin> key ` set xs \<Longrightarrow> key y = k \<Longrightarrow> find (\<lambda>x. key x = k) (xs @ [y]) = Some y"
  by (induction xs) auto

lemma other_active_distinct:
  "wf_db db \<Longrightarrow> distinct (map UserID (other_active db author))"
  by (simp add: wf_db_def other_active_def distinct_map_filter)

lemma create_pr_author_missing:
  "\<not> user_exists db (in_AuthorID inp) \<Longrightarrow>
   Service_CreatePR now inp (db, g) =
     (Inl (DomainError ErrorCodeNotFound ''author not found''), (db, g))"
  by (simp add: Service_CreatePR_def GetUser_missing NewDomainError_def)

lemma create_pr_run:
  assumes wf: "wf_db db"
    and a: "find (\<lambda>u. UserID u = in_AuthorID inp) (users db) = Some author"
    and fresh: "\<not> pr_exists db (in_ID inp)"
    and sh: "shuffle g (map UserID (other_active db author)) = (shuffled, g')"
  shows "\<exists>db'. Service_CreatePR now inp (db, g) =
           (Inr \<lparr>ID = in_ID inp, Name = in_Name inp, AuthorID = in_AuthorID inp,
                 Status = StatusOpen, AssignedReviewers = sort (take 2 shuffled),
                 CreatedAt = Some now, MergedAt = None\<rparr>, (db', g')) \<and>
         Repository_GetPR db' (in_ID inp) =
           Inr \<lparr>ID = in_ID inp, Name = in_Name inp, AuthorID = in_AuthorID inp,
                 Status = StatusOpen, AssignedReviewers = sort (take 2 shuffled),
                 CreatedAt = Some now, MergedAt = None\<rparr>"
proof -
  from a have aid: "UserID author = in_AuthorID inp" by (rule find_key_id)
  from a have amem: "author \<in> set (users db)" by (rule find_key_mem)
  have gu: "Repository_GetUser db (in_AuthorID inp) = Inr author"
    using a by (rule GetUser_found)
  have team: "team_exists db (TeamName author)"
    using wf amem by (simp add: wf_db_def team_exists_def)
  have ga: "Repository_GetActiveUsersByTeam db (TeamName author) =
      Inr (filter (\<lambda>u. TeamName u = TeamName author \<and> IsActive u) (users db))"
    using team by (rule GetActive_found)
  have ms: "mset shuffled = mset (map UserID (other_active db author))"
    using shuffle_mset [of g "map UserID (other_active db author)"] sh by simp
  have dist: "distinct shuffled"
    using other_active_distinct [OF wf, of author] ms by (metis mset_eq_imp_distinct_iff)
  have sub: "set shuffled \<subseteq> UserID ` set (users db)"
    using ms [THEN mset_eq_setD] by (auto simp: other_active_def)
  let ?rs = "take 2 shuffled"
  let ?pr = "\<lparr>ID = in_ID inp, Name = in_Name inp, AuthorID = in_AuthorID inp,
              Status = StatusOpen, AssignedReviewers = ?rs, CreatedAt = None, MergedAt = None\<rparr>"
  let ?row = "\<lparr>r_id = in_ID inp, r_name = in_Name inp, r_author_id = in_AuthorID inp,
               r_status = StatusOpen, r_created_at = now, r_merged_at = None\<rparr>"
  let ?db' = "db\<lparr>pull_requests := pull_requests db @ [?row],
                pull_request_reviewers := pull_request_reviewers db @ map (Pair (in_ID inp)) ?rs\<rparr>"
  have "\<forall>r \<in> set ?rs. user_exists db r"
    using sub by (auto simp: user_exists_def dest: in_set_takeD)
  moreover have "user_exists db (in_AuthorID inp)"
    unfolding user_exists_def using amem aid by (metis imageI)
  ultimately have cr: "Repository_CreatePRWithReviewers now db ?pr = (None, ?db')"
    using create_pr_with_reviewers_ok [of db ?pr now] wf fresh dist by simp
  have "find (\<lambda>p. r_id p = in_ID inp) (pull_requests ?db') = Some ?row"
    using fresh by (simp add: pr_exists_def find_snoc_fresh)
  then have get0: "Repository_GetPR ?db' (in_ID inp) = Inr (read_pr ?db' ?row)"
    by (rule GetPR_found)
  have "reviewers_of ?db' (in_ID inp) = sort ?rs"
    using reviewers_of_fresh_insert [OF wf_no_bindings_of_fresh_pr [OF wf fresh],
        where tx = "db\<lparr>pull_requests := pull_requests db @ [?row]\<rparr>" and rs = ?rs]
    by simp
  then have get: "Repository_GetPR ?db' (in_ID inp) =
           Inr \<lparr>ID = in_ID inp, Name = in_Name inp, AuthorID = in_AuthorID inp,
                 Status = StatusOpen, AssignedReviewers = sort (take 2 shuffled),
                 CreatedAt = Some now, MergedAt = None\<rparr>"
    using get0 by (simp add: read_pr_def)
  have "Service_CreatePR now inp (db, g) = (Repository_GetPR ?db' (in_ID inp), (?db', g'))"
  proof (cases "2 < length shuffled")
    case True
    then show ?thesis
      by (simp add: Service_CreatePR_def gu ga sh [unfolded other_active_def] cr)
  next
    case False
    then have t: "take 2 shuffled = shuffled" by simp
    show ?thesis
      using False cr unfolding t
      by (simp add: Service_CreatePR_def gu ga sh [unfolded other_active_def])
  qed
  with get show ?thesis by (intro exI [of _ ?db']) simp
qed

section \<open>Properties of single reassignment\<close>

lemma eligible_ids_pool:
  "eligible_ids (read_pr db row) (UserID oldUser)
     (filter (\<lambda>u. TeamName u = TeamName oldUser \<and> IsActive u) (users db)) =
   map UserID (candidate_pool db row oldUser)"
  by (simp add: eligible_ids_def candidate_pool_def Let_def conj_commute conj_left_commute cong: filter_cong)


lemma repo_reassign_failure:
  "Repository_ReassignReviewer db prID old new = (Some err, db') \<Longrightarrow> db' = db"
  by (auto simp: Repository_ReassignReviewer_def Let_def split: if_splits)

lemma repo_reassign_pull_requests:
  "Repository_ReassignReviewer db prID old new = (r, db') \<Longrightarrow>
   pull_requests db' = pull_requests db \<and> users db' = users db \<and> teams db' = teams db"
  by (auto simp: Repository_ReassignReviewer_def Let_def split: if_splits)

lemma service_reassign_failure_keeps_store:
  assumes "Service_ReassignReviewer prID oldUserID (db, g) = (Inl err, (db', g'))"
  shows "db' = db"
proof (cases "Repository_GetPR db prID")
  case (Inl e)
  with assms show ?thesis
    by (auto simp: Service_ReassignReviewer_def split: if_splits)
next
  case (Inr pr)
  note pr = this
  show ?thesis
  proof (cases "Status pr = StatusMerged")
    case True
    with assms pr show ?thesis by (auto simp: Service_ReassignReviewer_def)
  next
    case nm: False
    show ?thesis
    proof (cases "Repository_GetUser db oldUserID")
      case (Inl e)
      with assms pr nm show ?thesis
        by (auto simp: Service_ReassignReviewer_def split: if_splits)
    next
      case (Inr oldUser)
      note u = this
      show ?thesis
      proof (cases "oldUserID \<in> set (AssignedReviewers pr)")
        case False
        with assms pr nm u show ?thesis by (auto simp: Service_ReassignReviewer_def)
      next
        case asg: True
        show ?thesis
        proof (cases "Repository_GetActiveUsersByTeam db (TeamName oldUser)")
          case (Inl e)
          with assms pr nm u asg show ?thesis
            by (auto simp: Service_ReassignReviewer_def split: if_splits)
        next
          case (Inr candidates)
          note c = this
          show ?thesis
          proof (cases "eligible_ids pr oldUserID candidates = []")
            case True
            with assms pr nm u asg c show ?thesis
              by (auto simp: Service_ReassignReviewer_def)
          next
            case el: False
            obtain shuffled g1 where sh: "shuffle g (eligible_ids pr oldUserID candidates) = (shuffled, g1)"
              by (cases "shuffle g (eligible_ids pr oldUserID candidates)")
            obtain r db1 where rr: "Repository_ReassignReviewer db prID oldUserID (shuffled ! 0) = (r, db1)"
              by (cases "Repository_ReassignReviewer db prID oldUserID (shuffled ! 0)")
            show ?thesis
            proof (cases r)
              case (Some e)
              with rr have "db1 = db" by (auto dest: repo_reassign_failure)
              with assms pr nm u asg c el sh rr Some show ?thesis
                by (auto simp: Service_ReassignReviewer_def Let_def)
            next
              case None
              from rr have "pull_requests db1 = pull_requests db"
                by (auto dest: repo_reassign_pull_requests)
              with pr obtain pr1 where "Repository_GetPR db1 prID = Inr pr1"
                by (auto simp: Repository_GetPR_def split: option.splits)
              with assms pr nm u asg c el sh rr None show ?thesis
                by (auto simp: Service_ReassignReviewer_def Let_def)
            qed
          qed
        qed
      qed
    qed
  qed
qed


lemma reassign_pr_missing:
  "\<not> pr_exists db prID \<Longrightarrow>
   Service_ReassignReviewer prID oldUserID (db, g) =
     (Inl (DomainError ErrorCodeNotFound ''pull request not found''), (db, g))"
  by (simp add: Service_ReassignReviewer_def GetPR_missing NewDomainError_def)

lemma reassign_pr_merged:
  assumes "find (\<lambda>p. r_id p = prID) (pull_requests db) = Some row" "r_status row = StatusMerged"
  shows "Service_ReassignReviewer prID oldUserID (db, g) =
     (Inl (DomainError ErrorCodePRMerged ''cannot reassign on merged PR''), (db, g))"
proof -
  have pr: "Repository_GetPR db prID = Inr (read_pr db row)" using assms(1) by (rule GetPR_found)
  show ?thesis
    by (simp add: Service_ReassignReviewer_def pr assms(2) NewDomainError_def)
qed

lemma reassign_user_missing:
  assumes "find (\<lambda>p. r_id p = prID) (pull_requests db) = Some row"
    "r_status row \<noteq> StatusMerged" "\<not> user_exists db oldUserID"
  shows "Service_ReassignReviewer prID oldUserID (db, g) =
     (Inl (DomainError ErrorCodeNotFound ''user not found''), (db, g))"
proof -
  have pr: "Repository_GetPR db prID = Inr (read_pr db row)" using assms(1) by (rule GetPR_found)
  show ?thesis
    by (simp add: Service_ReassignReviewer_def pr assms(2,3) GetUser_missing NewDomainError_def)
qed

lemma reassign_not_assigned:
  assumes row: "find (\<lambda>p. r_id p = prID) (pull_requests db) = Some row"
    and nm: "r_status row \<noteq> StatusMerged"
    and u: "find (\<lambda>u. UserID u = oldUserID) (users db) = Some oldUser"
    and na: "oldUserID \<notin> set (reviewers_of db prID)"
  shows "Service_ReassignReviewer prID oldUserID (db, g) =
     (Inl (DomainError ErrorCodeNotAssigned ''reviewer is not assigned to this PR''), (db, g))"
proof -
  from row have id: "r_id row = prID" by (rule find_key_id)
  have pr: "Repository_GetPR db prID = Inr (read_pr db row)" using row by (rule GetPR_found)
  have gu: "Repository_GetUser db oldUserID = Inr oldUser" using u by (rule GetUser_found)
  show ?thesis
    by (simp add: Service_ReassignReviewer_def pr gu nm id na NewDomainError_def)
qed

lemma reassign_no_candidate:
  assumes row: "find (\<lambda>p. r_id p = prID) (pull_requests db) = Some row"
    and nm: "r_status row \<noteq> StatusMerged"
    and u: "find (\<lambda>u. UserID u = oldUserID) (users db) = Some oldUser"
    and asg: "oldUserID \<in> set (reviewers_of db prID)"
    and team: "team_exists db (TeamName oldUser)"
    and pool: "candidate_pool db row oldUser = []"
  shows "Service_ReassignReviewer prID oldUserID (db, g) =
     (Inl (DomainError ErrorCodeNoCandidate ''no active replacement candidate in team''), (db, g))"
proof -
  from row have id: "r_id row = prID" by (rule find_key_id)
  from u have uid: "UserID oldUser = oldUserID" by (rule find_key_id)
  have pr: "Repository_GetPR db prID = Inr (read_pr db row)" using row by (rule GetPR_found)
  have gu: "Repository_GetUser db oldUserID = Inr oldUser" using u by (rule GetUser_found)
  have ga: "Repository_GetActiveUsersByTeam db (TeamName oldUser) =
      Inr (filter (\<lambda>u. TeamName u = TeamName oldUser \<and> IsActive u) (users db))"
    using team by (rule GetActive_found)
  have el: "eligible_ids (read_pr db row) oldUserID
     (filter (\<lambda>u. TeamName u = TeamName oldUser \<and> IsActive u) (users db)) = []"
    using eligible_ids_pool [of db row oldUser] pool uid by simp
  show ?thesis
    by (simp add: Service_ReassignReviewer_def pr gu nm id asg ga el NewDomainError_def)
qed

lemma reviewers_of_mem:
  "r \<in> set (reviewers_of db prID) \<longleftrightarrow> (prID, r) \<in> set (pull_request_reviewers db)"
  by (force simp: reviewers_of_def)

lemma repo_reassign_ok:
  assumes "(prID, old) \<in> set (pull_request_reviewers db)"
    "(prID, new) \<notin> set (pull_request_reviewers db)" "user_exists db new"
  shows "Repository_ReassignReviewer db prID old new =
     (None, db\<lparr>pull_request_reviewers :=
                  map (\<lambda>b. if b = (prID, old) then (prID, new) else b)
                    (pull_request_reviewers db)\<rparr>)"
proof -
  have "filter (\<lambda>b. b = (prID, old)) (pull_request_reviewers db) \<noteq> []"
    using assms(1) by (simp add: filter_empty_conv)
  then show ?thesis using assms(2,3)
    by (simp add: Repository_ReassignReviewer_def Let_def)
qed

lemma repo_reassign_no_row:
  "(prID, old) \<notin> set (pull_request_reviewers db) \<Longrightarrow>
   Repository_ReassignReviewer db prID old new = (Some (ErrOther ''no reviewer row updated''), db)"
  by (simp add: Repository_ReassignReviewer_def Let_def filter_empty_conv)

lemma distinct_one_row:
  "distinct bs \<Longrightarrow> b \<in> set bs \<Longrightarrow> length (filter (\<lambda>x. x = b) bs) = 1"
  by (induction bs) (auto simp: filter_empty_conv)

lemma reviewers_after_swap:
  assumes "(prID, old) \<in> set bs"
  shows "set (reviewers_of (db\<lparr>pull_request_reviewers :=
            map (\<lambda>b. if b = (prID, old) then (prID, new) else b) bs\<rparr>) prID) =
         insert new (set (reviewers_of (db\<lparr>pull_request_reviewers := bs\<rparr>) prID) - {old})"
  using assms by (force simp: reviewers_of_def)

lemma reviewers_length_after_swap:
  "length (reviewers_of (db\<lparr>pull_request_reviewers :=
            map (\<lambda>b. if b = (prID, old) then (prID, new) else b) bs\<rparr>) prID) =
   length (reviewers_of (db\<lparr>pull_request_reviewers := bs\<rparr>) prID)"
proof -
  have "filter (\<lambda>b. fst b = prID) (map (\<lambda>b. if b = (prID, old) then (prID, new) else b) bs) =
        map (\<lambda>b. if b = (prID, old) then (prID, new) else b) (filter (\<lambda>b. fst b = prID) bs)"
    by (induction bs) auto
  then show ?thesis by (simp add: reviewers_of_def)
qed

lemma reviewers_of_self [simp]:
  "reviewers_of (db\<lparr>pull_request_reviewers := pull_request_reviewers db\<rparr>) prID = reviewers_of db prID"
  by (simp add: reviewers_of_def)

lemma shuffle_head_mem:
  assumes "ids \<noteq> []" "shuffle g ids = (shuffled, g')"
  shows "shuffled ! 0 \<in> set ids"
proof -
  have "length shuffled = length ids" "set shuffled = set ids"
    using shuffle_length [of g ids] shuffle_set [of g ids] assms(2) by simp_all
  with assms(1) show ?thesis by (metis length_greater_0_conv nth_mem)
qed

lemma reassign_run:
  assumes row: "find (\<lambda>p. r_id p = prID) (pull_requests db) = Some row"
    and nm: "r_status row \<noteq> StatusMerged"
    and u: "find (\<lambda>u. UserID u = oldUserID) (users db) = Some oldUser"
    and asg: "oldUserID \<in> set (reviewers_of db prID)"
    and team: "team_exists db (TeamName oldUser)"
    and pool: "candidate_pool db row oldUser \<noteq> []"
    and sh: "shuffle g (map UserID (candidate_pool db row oldUser)) = (shuffled, g')"
  shows "Service_ReassignReviewer prID oldUserID (db, g) =
     (Inr \<lparr>rr_PR = read_pr (db\<lparr>pull_request_reviewers :=
                map (\<lambda>b. if b = (prID, oldUserID) then (prID, shuffled ! 0) else b)
                  (pull_request_reviewers db)\<rparr>) row,
           rr_ReplacedBy = shuffled ! 0\<rparr>,
      (db\<lparr>pull_request_reviewers :=
                map (\<lambda>b. if b = (prID, oldUserID) then (prID, shuffled ! 0) else b)
                  (pull_request_reviewers db)\<rparr>, g'))"
    and "shuffled ! 0 \<in> UserID ` set (candidate_pool db row oldUser)"
proof -
  let ?new = "shuffled ! 0"
  let ?db' = "db\<lparr>pull_request_reviewers :=
                map (\<lambda>b. if b = (prID, oldUserID) then (prID, ?new) else b)
                  (pull_request_reviewers db)\<rparr>"
  from row have id: "r_id row = prID" by (rule find_key_id)
  from u have uid: "UserID oldUser = oldUserID" by (rule find_key_id)
  have pr: "Repository_GetPR db prID = Inr (read_pr db row)" using row by (rule GetPR_found)
  have gu: "Repository_GetUser db oldUserID = Inr oldUser" using u by (rule GetUser_found)
  have ga: "Repository_GetActiveUsersByTeam db (TeamName oldUser) =
      Inr (filter (\<lambda>u. TeamName u = TeamName oldUser \<and> IsActive u) (users db))"
    using team by (rule GetActive_found)
  have el: "eligible_ids (read_pr db row) oldUserID
     (filter (\<lambda>u. TeamName u = TeamName oldUser \<and> IsActive u) (users db)) =
     map UserID (candidate_pool db row oldUser)"
    using eligible_ids_pool [of db row oldUser] uid by simp
  show mem: "?new \<in> UserID ` set (candidate_pool db row oldUser)"
    using shuffle_head_mem [OF _ sh] pool by simp
  then obtain c where c: "c \<in> set (candidate_pool db row oldUser)" "UserID c = ?new"
    by auto
  from c(1) have "c \<in> set (users db)" "UserID c \<notin> set (reviewers_of db prID)"
    unfolding candidate_pool_def id by simp_all
  then have cu: "user_exists db ?new" and cn: "?new \<notin> set (reviewers_of db prID)"
    unfolding user_exists_def c(2) [symmetric] by (simp_all add: imageI)
  have rep: "Repository_ReassignReviewer db prID oldUserID ?new = (None, ?db')"
    using asg cn cu by (intro repo_reassign_ok) (simp_all add: reviewers_of_mem)
  have "find (\<lambda>p. r_id p = prID) (pull_requests ?db') = Some row"
    using row by simp
  then have pr': "Repository_GetPR ?db' prID = Inr (read_pr ?db' row)"
    by (rule GetPR_found)
  show "Service_ReassignReviewer prID oldUserID (db, g) =
     (Inr \<lparr>rr_PR = read_pr ?db' row, rr_ReplacedBy = ?new\<rparr>, (?db', g'))"
    using pool
    by (simp add: Service_ReassignReviewer_def pr gu nm id asg ga el sh rep pr' Let_def)
qed


lemma reassign_team_missing:
  assumes row: "find (\<lambda>p. r_id p = prID) (pull_requests db) = Some row"
    and nm: "r_status row \<noteq> StatusMerged"
    and u: "find (\<lambda>u. UserID u = oldUserID) (users db) = Some oldUser"
    and asg: "oldUserID \<in> set (reviewers_of db prID)"
    and team: "\<not> team_exists db (TeamName oldUser)"
  shows "Service_ReassignReviewer prID oldUserID (db, g) =
     (Inl (DomainError ErrorCodeNotFound ''team not found''), (db, g))"
proof -
  from row have id: "r_id row = prID" by (rule find_key_id)
  have pr: "Repository_GetPR db prID = Inr (read_pr db row)" using row by (rule GetPR_found)
  have gu: "Repository_GetUser db oldUserID = Inr oldUser" using u by (rule GetUser_found)
  have ga: "Repository_GetActiveUsersByTeam db (TeamName oldUser) = Inl ErrTeamNotFound"
    using team by (simp add: Repository_GetActiveUsersByTeam_def)
  show ?thesis
    by (simp add: Service_ReassignReviewer_def pr gu nm id asg ga NewDomainError_def)
qed

lemma reassign_success_cases:
  assumes ok: "Service_ReassignReviewer prID oldUserID (db, g) = (Inr rr, s')"
  obtains row oldUser where
    "find (\<lambda>p. r_id p = prID) (pull_requests db) = Some row"
    "r_status row \<noteq> StatusMerged"
    "find (\<lambda>u. UserID u = oldUserID) (users db) = Some oldUser"
    "oldUserID \<in> set (reviewers_of db prID)"
    "team_exists db (TeamName oldUser)"
    "candidate_pool db row oldUser \<noteq> []"
proof -
  have "pr_exists db prID"
    using ok reassign_pr_missing [of db prID oldUserID g] by auto
  then obtain row where row: "find (\<lambda>p. r_id p = prID) (pull_requests db) = Some row"
    using find_None_pr [of prID db] by (cases "find (\<lambda>p. r_id p = prID) (pull_requests db)") auto
  have nm: "r_status row \<noteq> StatusMerged"
    using ok reassign_pr_merged [OF row, of oldUserID g] by auto
  have "user_exists db oldUserID"
    using ok reassign_user_missing [OF row nm, of oldUserID g] by auto
  then obtain oldUser where u: "find (\<lambda>u. UserID u = oldUserID) (users db) = Some oldUser"
    using find_None_user [of oldUserID db]
    by (cases "find (\<lambda>u. UserID u = oldUserID) (users db)") auto
  have asg: "oldUserID \<in> set (reviewers_of db prID)"
    using ok reassign_not_assigned [OF row nm u, of g] by auto
  have team: "team_exists db (TeamName oldUser)"
    using ok reassign_team_missing [OF row nm u asg, of g] by auto
  have pool: "candidate_pool db row oldUser \<noteq> []"
    using ok reassign_no_candidate [OF row nm u asg team, of g] by auto
  from row nm u asg team pool show thesis by (rule that)
qed

lemma reviewers_of_other_after_swap:
  "q \<noteq> prID \<Longrightarrow>
   reviewers_of (db\<lparr>pull_request_reviewers :=
       map (\<lambda>b. if b = (prID, old) then (prID, new) else b) bs\<rparr>) q =
   reviewers_of (db\<lparr>pull_request_reviewers := bs\<rparr>) q"
proof -
  assume "q \<noteq> prID"
  then have "filter (\<lambda>b. fst b = q) (map (\<lambda>b. if b = (prID, old) then (prID, new) else b) bs) =
        filter (\<lambda>b. fst b = q) bs"
    by (induction bs) auto
  then show ?thesis by (simp add: reviewers_of_def)
qed

lemma status_not_merged: "s \<noteq> StatusMerged \<longleftrightarrow> s = StatusOpen"
  by (cases s) simp_all

section \<open>Properties of the first loop of bulk deactivation\<close>

lemma find_map_key_preserving:
  assumes "\<And>x. key (f x) = key x"
  shows "find (\<lambda>x. key x = k) (map f xs) = map_option f (find (\<lambda>x. key x = k) xs)"
  using assms by (induction xs) auto

lemma deactivate_all_Nil [simp]: "deactivate_all [] db = db"
  by (simp add: deactivate_all_def)

lemma find_deactivate_all:
  "find (\<lambda>u. UserID u = uid) (users (deactivate_all uids db)) =
   map_option (\<lambda>u. if UserID u \<in> set uids then u\<lparr>IsActive := False\<rparr> else u)
     (find (\<lambda>u. UserID u = uid) (users db))"
  unfolding deactivate_all_def
  by (simp add: find_map_key_preserving [where key = UserID])

lemma valid_member_deactivate_all [simp]:
  "valid_member (deactivate_all uids db) teamName uid = valid_member db teamName uid"
  by (simp add: valid_member_def find_deactivate_all split: option.splits)

lemma distinct_deactivate_all [simp]:
  "map UserID (users (deactivate_all uids db)) = map UserID (users db)"
  by (simp add: deactivate_all_def o_def if_distrib cong: if_cong)

lemma user_exists_deactivate_all [simp]:
  "user_exists (deactivate_all uids db) uid = user_exists db uid"
  unfolding user_exists_def set_map [symmetric] by simp

lemma map_inactive_noop:
  assumes "distinct (map UserID us)" "find (\<lambda>u. UserID u = uid) us = Some user" "\<not> IsActive user"
  shows "map (\<lambda>u. if UserID u = uid then u\<lparr>IsActive := False\<rparr> else u) us = us"
proof -
  have "\<And>u. u \<in> set us \<Longrightarrow> UserID u = uid \<Longrightarrow> u = user"
    using assms(1,2) by (induction us) (auto split: if_splits)
  then have "\<And>u. u \<in> set us \<Longrightarrow> (if UserID u = uid then u\<lparr>IsActive := False\<rparr> else u) = u"
    using assms(3) by auto
  then show ?thesis by (rule map_idI)
qed

lemma deactivate_step:
  assumes d: "distinct (map UserID (users db))" and v: "valid_member db teamName uid"
  shows "deactivate_loop teamName (uid # rest) res toProcess db =
         deactivate_loop teamName rest (res\<lparr>b_Deactivated := b_Deactivated res @ [uid]\<rparr>)
           (toProcess @ [uid]) (deactivate_all [uid] db)"
proof -
  from v obtain user where u: "find (\<lambda>u. UserID u = uid) (users db) = Some user"
    and t: "TeamName user = teamName"
    by (auto simp: valid_member_def split: option.splits)
  have gu: "Repository_GetUser db uid = Inr user" using u by (rule GetUser_found)
  show ?thesis
  proof (cases "IsActive user")
    case True
    then show ?thesis
      by (simp add: gu t Repository_SetUserActive_def u deactivate_all_def)
  next
    case False
    have "deactivate_all [uid] db = db"
      using map_inactive_noop [OF d u False] by (simp add: deactivate_all_def)
    with False show ?thesis by (simp add: gu t)
  qed
qed

lemma deactivate_all_append:
  "deactivate_all ys (deactivate_all xs db) = deactivate_all (xs @ ys) db"
  by (auto simp: deactivate_all_def)

lemma deactivate_loop_valid:
  assumes "distinct (map UserID (users db))" "\<forall>uid \<in> set uids. valid_member db teamName uid"
  shows "deactivate_loop teamName uids res toProcess db =
         (None, res\<lparr>b_Deactivated := b_Deactivated res @ uids\<rparr>, toProcess @ uids,
          deactivate_all uids db)"
  using assms
proof (induction uids arbitrary: res toProcess db)
  case Nil
  then show ?case by simp
next
  case (Cons uid uids)
  have "deactivate_loop teamName (uid # uids) res toProcess db =
         deactivate_loop teamName uids (res\<lparr>b_Deactivated := b_Deactivated res @ [uid]\<rparr>)
           (toProcess @ [uid]) (deactivate_all [uid] db)"
    using Cons.prems by (intro deactivate_step) simp_all
  also have "\<dots> = (None, res\<lparr>b_Deactivated := b_Deactivated res @ [uid] @ uids\<rparr>,
      (toProcess @ [uid]) @ uids, deactivate_all uids (deactivate_all [uid] db))"
    using Cons.prems by (subst Cons.IH) simp_all
  finally show ?case by (simp add: deactivate_all_append)
qed

lemma deactivate_loop_invalid:
  assumes "\<not> valid_member db teamName uid"
  shows "deactivate_loop teamName (uid # rest) res toProcess db =
         (Some (DomainError ErrorCodeNotFound (abort_message db teamName uid)), res, toProcess, db)"
proof (cases "find (\<lambda>u. UserID u = uid) (users db)")
  case None
  then have "\<not> user_exists db uid" by (simp add: find_None_user)
  then show ?thesis
    by (simp add: GetUser_missing abort_message_def NewDomainError_def)
next
  case (Some user)
  then have gu: "Repository_GetUser db uid = Inr user" by (rule GetUser_found)
  have "user_exists db uid"
    using Some find_None_user [of uid db] by simp
  moreover have "TeamName user \<noteq> teamName"
    using assms Some by (simp add: valid_member_def)
  ultimately show ?thesis
    by (simp add: gu abort_message_def NewDomainError_def)
qed

lemma deactivate_loop_abort:
  assumes d: "distinct (map UserID (users db))"
    and pre: "\<forall>uid \<in> set pre. valid_member db teamName uid"
    and bad: "\<not> valid_member db teamName bad"
  shows "deactivate_loop teamName (pre @ bad # post) res toProcess db =
         (Some (DomainError ErrorCodeNotFound (abort_message db teamName bad)),
          res\<lparr>b_Deactivated := b_Deactivated res @ pre\<rparr>, toProcess @ pre,
          deactivate_all pre db)"
  using assms
proof (induction pre arbitrary: res toProcess db)
  case Nil
  then show ?case
    using deactivate_loop_invalid [of db teamName bad post res toProcess]
    by (simp del: deactivate_loop.simps)
next
  case (Cons uid pre)
  have "deactivate_loop teamName ((uid # pre) @ bad # post) res toProcess db =
         deactivate_loop teamName (pre @ bad # post)
           (res\<lparr>b_Deactivated := b_Deactivated res @ [uid]\<rparr>)
           (toProcess @ [uid]) (deactivate_all [uid] db)"
    using Cons.prems deactivate_step [of db teamName uid "pre @ bad # post"] by simp
  also have "\<dots> = (Some (DomainError ErrorCodeNotFound
                   (abort_message (deactivate_all [uid] db) teamName bad)),
      res\<lparr>b_Deactivated := b_Deactivated res @ [uid] @ pre\<rparr>, (toProcess @ [uid]) @ pre,
      deactivate_all pre (deactivate_all [uid] db))"
    using Cons.prems by (subst Cons.IH) simp_all
  finally show ?case by (simp add: deactivate_all_append abort_message_def)
qed

section \<open>Properties of the second phase of bulk deactivation\<close>

lemma reassign_success_effect:
  assumes ok: "Service_ReassignReviewer prID oldUserID (db, g) = (Inr rr, (db', g'))"
  obtains c where "c \<in> set (users db)" "IsActive c" "UserID c \<noteq> oldUserID"
    "rr_ReplacedBy rr = UserID c" "ID (rr_PR rr) = prID"
    "(prID, UserID c) \<notin> set (pull_request_reviewers db)"
    "pull_request_reviewers db' =
       map (\<lambda>b. if b = (prID, oldUserID) then (prID, UserID c) else b)
         (pull_request_reviewers db)"
    "users db' = users db" "pull_requests db' = pull_requests db" "teams db' = teams db"
proof -
  from ok obtain row oldUser where
    row: "find (\<lambda>p. r_id p = prID) (pull_requests db) = Some row"
    and nm: "r_status row \<noteq> StatusMerged"
    and u: "find (\<lambda>u. UserID u = oldUserID) (users db) = Some oldUser"
    and asg: "oldUserID \<in> set (reviewers_of db prID)"
    and team: "team_exists db (TeamName oldUser)"
    and pool: "candidate_pool db row oldUser \<noteq> []"
    by (rule reassign_success_cases)
  obtain shuffled g1 where
    sh: "shuffle g (map UserID (candidate_pool db row oldUser)) = (shuffled, g1)"
    by (cases "shuffle g (map UserID (candidate_pool db row oldUser))")
  let ?new = "shuffled ! 0"
  let ?db' = "db\<lparr>pull_request_reviewers :=
      map (\<lambda>b. if b = (prID, oldUserID) then (prID, ?new) else b) (pull_request_reviewers db)\<rparr>"
  from row have id: "r_id row = prID" by (rule find_key_id)
  from u have uid: "UserID oldUser = oldUserID" by (rule find_key_id)
  have run: "Service_ReassignReviewer prID oldUserID (db, g) =
      (Inr \<lparr>rr_PR = read_pr ?db' row, rr_ReplacedBy = ?new\<rparr>, (?db', g1))"
    and mem: "?new \<in> UserID ` set (candidate_pool db row oldUser)"
    using reassign_run [OF row nm u asg team pool sh] by simp_all
  from ok [symmetric, THEN trans, OF run]
  have rr: "rr = \<lparr>rr_PR = read_pr ?db' row, rr_ReplacedBy = ?new\<rparr>" and db': "db' = ?db'"
    by (simp_all only: prod.inject sum.inject)
  from mem obtain c where c: "c \<in> set (candidate_pool db row oldUser)" "UserID c = ?new"
    by auto
  from c(1) have cp: "c \<in> set (users db)" "IsActive c" "UserID c \<noteq> oldUserID"
    "UserID c \<notin> set (reviewers_of db prID)"
    unfolding candidate_pool_def uid id by simp_all
  show thesis
  proof (rule that [of c])
    show "c \<in> set (users db)" "IsActive c" "UserID c \<noteq> oldUserID" by (fact cp)+
    show "(prID, UserID c) \<notin> set (pull_request_reviewers db)"
      using cp(4) by (simp add: reviewers_of_mem)
    show "rr_ReplacedBy rr = UserID c" by (simp add: rr c(2))
    show "ID (rr_PR rr) = prID" by (simp add: rr id)
    show "pull_request_reviewers db' =
       map (\<lambda>b. if b = (prID, oldUserID) then (prID, UserID c) else b)
         (pull_request_reviewers db)" by (simp add: db' c(2))
    show "users db' = users db" "pull_requests db' = pull_requests db" "teams db' = teams db"
      by (simp_all add: db')
  qed
qed

lemma reassign_prs_skip:
  "s_Status prShort \<noteq> StatusOpen \<Longrightarrow>
   reassign_prs uid (prShort # rest) res aff s = reassign_prs uid rest res aff s"
  by simp

lemma reassign_prs_success:
  "s_Status prShort = StatusOpen \<Longrightarrow>
   Service_ReassignReviewer (s_ID prShort) uid s = (Inr rr, s') \<Longrightarrow>
   reassign_prs uid (prShort # rest) res aff s =
     reassign_prs uid rest (res\<lparr>b_ReassignedReviewers := b_ReassignedReviewers res + 1\<rparr>)
       (insert (ID (rr_PR rr)) aff) s'"
  by simp

lemma reassign_prs_no_candidate:
  "s_Status prShort = StatusOpen \<Longrightarrow>
   Service_ReassignReviewer (s_ID prShort) uid s =
     (Inl (DomainError ErrorCodeNoCandidate msg), (db', g')) \<Longrightarrow>
   reassign_prs uid (prShort # rest) res aff s =
     reassign_prs uid rest (res\<lparr>b_RemovedReviewers := b_RemovedReviewers res + 1\<rparr>)
       (insert (s_ID prShort) aff) (Repository_RemoveReviewer db' (s_ID prShort) uid, g')"
  by simp

lemma reassign_prs_abort:
  "s_Status prShort = StatusOpen \<Longrightarrow>
   Service_ReassignReviewer (s_ID prShort) uid s = (Inl err, s') \<Longrightarrow>
   (\<forall>msg. err \<noteq> DomainError ErrorCodeNoCandidate msg) \<Longrightarrow>
   reassign_prs uid (prShort # rest) res aff s = (Some err, res, aff, s')"
  by (cases err) (auto split: option.splits)


lemma distinct_swap_fresh:
  "distinct bs \<Longrightarrow> new \<notin> set bs \<Longrightarrow> distinct (map (\<lambda>b. if b = old then new else b) bs)"
  by (induction bs) (auto simp: image_iff)

lemma loop_post_step:
  assumes ih: "loop_post S uid prs res1 aff1 db1 res' aff' db'"
    and fr: "users db1 = users db" "pull_requests db1 = pull_requests db" "teams db1 = teams db"
    and mono1: "\<forall>b \<in> set (pull_request_reviewers db1). snd b \<in> S \<longrightarrow>
          b \<in> set (pull_request_reviewers db)"
    and keep1: "\<forall>b \<in> set (pull_request_reviewers db). snd b \<noteq> uid \<longrightarrow>
          b \<in> set (pull_request_reviewers db1)"
    and gone1: "(s_ID ps, uid) \<notin> set (pull_request_reviewers db1)"
    and uidS: "uid \<in> S"
    and st: "s_Status ps = StatusOpen"
    and cnt: "b_ReassignedReviewers res1 + b_RemovedReviewers res1 =
          b_ReassignedReviewers res + b_RemovedReviewers res + 1"
    and aff1: "aff1 = insert (s_ID ps) aff"
    and same: "b_Deactivated res1 = b_Deactivated res" "b_TeamName res1 = b_TeamName res"
    and dist1: "distinct (pull_request_reviewers db) \<longrightarrow> distinct (pull_request_reviewers db1)"
  shows "loop_post S uid (ps # prs) res aff db res' aff' db'"
proof -
  from ih have
    f: "users db' = users db1" "pull_requests db' = pull_requests db1" "teams db' = teams db1"
    and m: "\<forall>b \<in> set (pull_request_reviewers db'). snd b \<in> S \<longrightarrow>
          b \<in> set (pull_request_reviewers db1)"
    and k: "\<forall>b \<in> set (pull_request_reviewers db1). snd b \<noteq> uid \<longrightarrow>
          b \<in> set (pull_request_reviewers db')"
    and gn: "\<forall>q \<in> set prs. s_Status q = StatusOpen \<longrightarrow>
          (s_ID q, uid) \<notin> set (pull_request_reviewers db')"
    and c: "b_ReassignedReviewers res' + b_RemovedReviewers res' =
       b_ReassignedReviewers res1 + b_RemovedReviewers res1 +
       length (filter (\<lambda>q. s_Status q = StatusOpen) prs)"
    and a: "aff' = aff1 \<union> s_ID ` set (filter (\<lambda>q. s_Status q = StatusOpen) prs)"
    and sm: "b_Deactivated res' = b_Deactivated res1" "b_TeamName res' = b_TeamName res1"
    and ds: "distinct (pull_request_reviewers db1) \<longrightarrow> distinct (pull_request_reviewers db')"
    unfolding loop_post_def by blast+
  have 1: "users db' = users db" "pull_requests db' = pull_requests db" "teams db' = teams db"
    using f fr by simp_all
  have 2: "\<forall>b \<in> set (pull_request_reviewers db'). snd b \<in> S \<longrightarrow>
          b \<in> set (pull_request_reviewers db)"
    using m mono1 by blast
  have 3: "\<forall>b \<in> set (pull_request_reviewers db). snd b \<noteq> uid \<longrightarrow>
          b \<in> set (pull_request_reviewers db')"
    using k keep1 by blast
  have g0: "(s_ID ps, uid) \<notin> set (pull_request_reviewers db')"
  proof
    assume "(s_ID ps, uid) \<in> set (pull_request_reviewers db')"
    with m uidS have "(s_ID ps, uid) \<in> set (pull_request_reviewers db1)" by force
    with gone1 show False by contradiction
  qed
  have 4: "\<forall>q \<in> set (ps # prs). s_Status q = StatusOpen \<longrightarrow>
          (s_ID q, uid) \<notin> set (pull_request_reviewers db')"
    using gn g0 by simp
  have 5: "b_ReassignedReviewers res' + b_RemovedReviewers res' =
       b_ReassignedReviewers res + b_RemovedReviewers res +
       length (filter (\<lambda>q. s_Status q = StatusOpen) (ps # prs))"
    using c cnt st by simp
  have 6: "aff' = aff \<union> s_ID ` set (filter (\<lambda>q. s_Status q = StatusOpen) (ps # prs))"
    using a aff1 st by simp
  have 7: "b_Deactivated res' = b_Deactivated res" "b_TeamName res' = b_TeamName res"
    using sm same by simp_all
  have 8: "distinct (pull_request_reviewers db) \<longrightarrow> distinct (pull_request_reviewers db')"
    using ds dist1 by blast
  show ?thesis
    unfolding loop_post_def
    apply (intro conjI)
    apply (fact 1 2 3 4 5 6 7 8)+
    done
qed

lemma loop_post_skip:
  assumes "loop_post S uid prs res aff db res' aff' db'" "s_Status ps \<noteq> StatusOpen"
  shows "loop_post S uid (ps # prs) res aff db res' aff' db'"
  using assms unfolding loop_post_def by simp


lemma reassign_prs_None:
  assumes "reassign_prs uid prs res aff (db, g) = (None, res', aff', (db', g'))"
    and "\<forall>u \<in> set (users db). UserID u \<in> S \<longrightarrow> \<not> IsActive u"
    and uidS: "uid \<in> S"
  shows "loop_post S uid prs res aff db res' aff' db'"
  using assms(1,2)
proof (induction prs arbitrary: res aff db g)
  case Nil
  then show ?case by (simp add: loop_post_def)
next
  case (Cons ps prs)
  note run = Cons.prems(1) and inact = Cons.prems(2)
  show ?case
  proof (cases "s_Status ps = StatusOpen")
    case False
    with run have "reassign_prs uid prs res aff (db, g) = (None, res', aff', (db', g'))"
      by simp
    from Cons.IH [OF this inact] False show ?thesis
      by (rule loop_post_skip)
  next
    case True
    obtain r db1 g1 where call: "Service_ReassignReviewer (s_ID ps) uid (db, g) = (r, (db1, g1))"
      by (metis surj_pair)
    show ?thesis
    proof (cases r)
      case (Inr rr)
      with call have ok: "Service_ReassignReviewer (s_ID ps) uid (db, g) = (Inr rr, (db1, g1))"
        by simp
      from ok obtain c where c: "c \<in> set (users db)" "IsActive c" "UserID c \<noteq> uid"
        "ID (rr_PR rr) = s_ID ps"
        and fresh: "(s_ID ps, UserID c) \<notin> set (pull_request_reviewers db)"
        and bs: "pull_request_reviewers db1 =
           map (\<lambda>b. if b = (s_ID ps, uid) then (s_ID ps, UserID c) else b)
             (pull_request_reviewers db)"
        and fr: "users db1 = users db" "pull_requests db1 = pull_requests db" "teams db1 = teams db"
        by (rule reassign_success_effect)
      have cS: "UserID c \<notin> S" using c(1,2) inact by blast
      have rest: "reassign_prs uid prs
          (res\<lparr>b_ReassignedReviewers := b_ReassignedReviewers res + 1\<rparr>)
          (insert (ID (rr_PR rr)) aff) (db1, g1) = (None, res', aff', (db', g'))"
        using run unfolding reassign_prs_success [OF True ok, of prs res aff] .
      have inact1: "\<forall>u \<in> set (users db1). UserID u \<in> S \<longrightarrow> \<not> IsActive u"
        using inact unfolding fr .
      have ih: "loop_post S uid prs (res\<lparr>b_ReassignedReviewers := b_ReassignedReviewers res + 1\<rparr>)
          (insert (ID (rr_PR rr)) aff) db1 res' aff' db'"
        using Cons.IH [OF rest inact1] .
      have mono1: "\<forall>b \<in> set (pull_request_reviewers db1). snd b \<in> S \<longrightarrow>
          b \<in> set (pull_request_reviewers db)"
        using cS unfolding bs by auto
      have keep1: "\<forall>b \<in> set (pull_request_reviewers db). snd b \<noteq> uid \<longrightarrow>
          b \<in> set (pull_request_reviewers db1)"
      proof (intro ballI impI)
        fix b assume b: "b \<in> set (pull_request_reviewers db)" "snd b \<noteq> uid"
        then have e: "b = (if b = (s_ID ps, uid) then (s_ID ps, UserID c) else b)" by auto
        show "b \<in> set (pull_request_reviewers db1)"
          unfolding bs set_map using e b(1) by (rule image_eqI)
      qed
      have gone1: "(s_ID ps, uid) \<notin> set (pull_request_reviewers db1)"
        using c(3) unfolding bs by auto
      have dist1: "distinct (pull_request_reviewers db) \<longrightarrow>
          distinct (pull_request_reviewers db1)"
        unfolding bs using fresh by (simp add: distinct_swap_fresh)
      show ?thesis
        by (rule loop_post_step [OF ih fr mono1 keep1 gone1 uidS True _ _ _ _ dist1])
          (simp_all add: c(4))
    next
      case (Inl err)
      with call have bad: "Service_ReassignReviewer (s_ID ps) uid (db, g) = (Inl err, (db1, g1))"
        by simp
      then have db1: "db1 = db" by (rule service_reassign_failure_keeps_store)
      show ?thesis
      proof (cases "\<exists>msg. err = DomainError ErrorCodeNoCandidate msg")
        case False
        then have "reassign_prs uid (ps # prs) res aff (db, g) = (Some err, res, aff, (db1, g1))"
          using reassign_prs_abort [OF True bad] by blast
        with run show ?thesis by simp
      next
        case nc: True
        then obtain msg where err: "err = DomainError ErrorCodeNoCandidate msg" by blast
        let ?db2 = "Repository_RemoveReviewer db (s_ID ps) uid"
        have rest: "reassign_prs uid prs
            (res\<lparr>b_RemovedReviewers := b_RemovedReviewers res + 1\<rparr>)
            (insert (s_ID ps) aff) (?db2, g1) = (None, res', aff', (db', g'))"
          using run
          unfolding reassign_prs_no_candidate [OF True bad [unfolded err], of prs res aff] db1 .
        have fr: "users ?db2 = users db" "pull_requests ?db2 = pull_requests db"
          "teams ?db2 = teams db"
          by (simp_all add: Repository_RemoveReviewer_def)
        have inact2: "\<forall>u \<in> set (users ?db2). UserID u \<in> S \<longrightarrow> \<not> IsActive u"
          using inact unfolding fr .
        have ih: "loop_post S uid prs (res\<lparr>b_RemovedReviewers := b_RemovedReviewers res + 1\<rparr>)
            (insert (s_ID ps) aff) ?db2 res' aff' db'"
          using Cons.IH [OF rest inact2] .
        have mono2: "\<forall>b \<in> set (pull_request_reviewers ?db2). snd b \<in> S \<longrightarrow>
            b \<in> set (pull_request_reviewers db)"
          by (simp add: Repository_RemoveReviewer_def)
        have keep2: "\<forall>b \<in> set (pull_request_reviewers db). snd b \<noteq> uid \<longrightarrow>
            b \<in> set (pull_request_reviewers ?db2)"
          by (auto simp: Repository_RemoveReviewer_def)
        have gone2: "(s_ID ps, uid) \<notin> set (pull_request_reviewers ?db2)"
          by (simp add: Repository_RemoveReviewer_def)
        have dist2: "distinct (pull_request_reviewers db) \<longrightarrow>
            distinct (pull_request_reviewers ?db2)"
          by (simp add: Repository_RemoveReviewer_def)
        show ?thesis
          by (rule loop_post_step [OF ih fr mono2 keep2 gone2 uidS True _ _ _ _ dist2]) simp_all
      qed
    qed
  qed
qed


lemma set_joined_rows:
  "set (joined_rows db uid) =
   {p \<in> set (pull_requests db). (r_id p, uid) \<in> set (pull_request_reviewers db)}"
  by (auto simp: joined_rows_def)

lemma snapshot_open_ids:
  "s_ID ` set (filter (\<lambda>ps. s_Status ps = StatusOpen) (fst (Repository_GetPRsForReviewer db uid))) =
   r_id ` set (open_reviews db uid)"
proof -
  let ?rows = "sort_key (\<lambda>p. - r_created_at p) (joined_rows db uid)"
  have "filter (\<lambda>ps. s_Status ps = StatusOpen) (map short_of ?rows) =
        map short_of (filter (\<lambda>p. r_status p = StatusOpen) ?rows)"
    by (simp add: filter_map o_def short_of_def)
  moreover have "s_ID ` set (map short_of (filter (\<lambda>p. r_status p = StatusOpen) ?rows)) =
        r_id ` set (filter (\<lambda>p. r_status p = StatusOpen) ?rows)"
    by (simp add: image_image short_of_def)
  moreover have "set (filter (\<lambda>p. r_status p = StatusOpen) ?rows) = set (open_reviews db uid)"
    unfolding open_reviews_def set_filter set_sort set_joined_rows by blast
  ultimately show ?thesis
    by (simp add: Repository_GetPRsForReviewer_def)
qed

lemma filter_eq_distinct:
  "distinct bs \<Longrightarrow> filter (\<lambda>x. x = b) bs = (if b \<in> set bs then [b] else [])"
  by (induction bs) auto

lemma concat_map_if:
  "concat (map (\<lambda>p. map (\<lambda>b. p) (if P p then [c p] else [])) ps) = filter P ps"
  by (induction ps) auto

lemma joined_rows_distinct:
  assumes "distinct (pull_request_reviewers db)"
  shows "joined_rows db uid =
         filter (\<lambda>p. (r_id p, uid) \<in> set (pull_request_reviewers db)) (pull_requests db)"
  unfolding joined_rows_def filter_eq_distinct [OF assms] by (rule concat_map_if)

lemma snapshot_open_length:
  assumes "distinct (pull_request_reviewers db)"
  shows "length (filter (\<lambda>ps. s_Status ps = StatusOpen) (fst (Repository_GetPRsForReviewer db uid))) =
         length (open_reviews db uid)"
proof -
  let ?rows = "sort_key (\<lambda>p. - r_created_at p) (joined_rows db uid)"
  have "filter (\<lambda>ps. s_Status ps = StatusOpen) (map short_of ?rows) =
        map short_of (filter (\<lambda>p. r_status p = StatusOpen) ?rows)"
    by (simp add: filter_map o_def short_of_def)
  moreover have "mset (filter (\<lambda>p. r_status p = StatusOpen) ?rows) =
        mset (filter (\<lambda>p. r_status p = StatusOpen) (joined_rows db uid))"
    by simp
  then have "length (filter (\<lambda>p. r_status p = StatusOpen) ?rows) =
        length (filter (\<lambda>p. r_status p = StatusOpen) (joined_rows db uid))"
    by (rule mset_eq_length)
  moreover have "filter (\<lambda>p. r_status p = StatusOpen) (joined_rows db uid) = open_reviews db uid"
    unfolding joined_rows_distinct [OF assms] open_reviews_def by (simp add: conj_commute)
  ultimately show ?thesis
    by (simp add: Repository_GetPRsForReviewer_def)
qed


lemma open_reviews_mem:
  "p \<in> set (open_reviews db uid) \<longleftrightarrow>
   p \<in> set (pull_requests db) \<and> r_status p = StatusOpen \<and>
   (r_id p, uid) \<in> set (pull_request_reviewers db)"
  by (auto simp: open_reviews_def)

lemma open_reviews_cong:
  assumes "pull_requests db1 = pull_requests db"
    and "\<And>pid. (pid, u) \<in> set (pull_request_reviewers db1) \<longleftrightarrow>
                (pid, u) \<in> set (pull_request_reviewers db)"
  shows "open_reviews db1 u = open_reviews db u"
  unfolding open_reviews_def assms(1) using assms(2) by simp

lemma bulk_post_step:
  assumes inner: "loop_post S uid (fst (Repository_GetPRsForReviewer db uid)) res aff db res1 aff1 db1"
    and outer: "bulk_post S rest res1 aff1 db1 res' aff' db'"
    and uidS: "uid \<in> S" and restS: "set rest \<subseteq> S"
  shows "bulk_post S (uid # rest) res aff db res' aff' db'"
proof -
  let ?prs = "fst (Repository_GetPRsForReviewer db uid)"
  let ?B = "pull_request_reviewers db" and ?B1 = "pull_request_reviewers db1"
    and ?B' = "pull_request_reviewers db'"
  from inner have
    f1: "users db1 = users db" "pull_requests db1 = pull_requests db" "teams db1 = teams db"
    and m1: "\<forall>b \<in> set ?B1. snd b \<in> S \<longrightarrow> b \<in> set ?B"
    and k1: "\<forall>b \<in> set ?B. snd b \<noteq> uid \<longrightarrow> b \<in> set ?B1"
    and g1: "\<forall>ps \<in> set ?prs. s_Status ps = StatusOpen \<longrightarrow> (s_ID ps, uid) \<notin> set ?B1"
    and c1: "b_ReassignedReviewers res1 + b_RemovedReviewers res1 =
       b_ReassignedReviewers res + b_RemovedReviewers res +
       length (filter (\<lambda>ps. s_Status ps = StatusOpen) ?prs)"
    and a1: "aff1 = aff \<union> s_ID ` set (filter (\<lambda>ps. s_Status ps = StatusOpen) ?prs)"
    and s1: "b_Deactivated res1 = b_Deactivated res" "b_TeamName res1 = b_TeamName res"
    and d1: "distinct ?B \<longrightarrow> distinct ?B1"
    unfolding loop_post_def by blast+
  from outer have
    f2: "users db' = users db1" "pull_requests db' = pull_requests db1" "teams db' = teams db1"
    and m2: "\<forall>b \<in> set ?B'. snd b \<in> S \<longrightarrow> b \<in> set ?B1"
    and k2: "\<forall>b \<in> set ?B1. snd b \<notin> set rest \<longrightarrow> b \<in> set ?B'"
    and g2: "\<forall>u \<in> set rest. open_reviews db' u = []"
    and a2: "aff' = aff1 \<union> r_id ` set (concat (map (open_reviews db1) rest))"
    and s2: "b_Deactivated res' = b_Deactivated res1" "b_TeamName res' = b_TeamName res1"
    and d2: "distinct ?B1 \<longrightarrow>
        distinct ?B' \<and>
        b_ReassignedReviewers res' + b_RemovedReviewers res' =
          b_ReassignedReviewers res1 + b_RemovedReviewers res1 +
          (\<Sum>u \<in> set rest. length (open_reviews db1 u))"
    unfolding bulk_post_def by blast+
  have a1': "aff1 = aff \<union> r_id ` set (open_reviews db uid)"
    using a1 unfolding snapshot_open_ids .
  have gone1: "open_reviews db1 uid = []"
  proof (rule ccontr)
    assume "open_reviews db1 uid \<noteq> []"
    then obtain p where "p \<in> set (open_reviews db1 uid)"
      by (meson last_in_set)
    then have p: "p \<in> set (pull_requests db)" "r_status p = StatusOpen"
      "(r_id p, uid) \<in> set ?B1"
      unfolding open_reviews_mem f1 by simp_all
    from p(3) m1 uidS have "(r_id p, uid) \<in> set ?B" by force
    with p(1,2) have "p \<in> set (open_reviews db uid)"
      unfolding open_reviews_mem by simp
    then have "r_id p \<in> r_id ` set (open_reviews db uid)" by (rule imageI)
    then have "r_id p \<in> s_ID ` set (filter (\<lambda>ps. s_Status ps = StatusOpen) ?prs)"
      unfolding snapshot_open_ids .
    then obtain ps where "ps \<in> set ?prs" "s_Status ps = StatusOpen" "s_ID ps = r_id p"
      by auto
    with g1 have "(r_id p, uid) \<notin> set ?B1" by metis
    with p(3) show False by contradiction
  qed
  have same1: "open_reviews db1 u = open_reviews db u" if "u \<in> S" "u \<noteq> uid" for u
  proof (rule open_reviews_cong [OF f1(2)])
    fix pid
    show "(pid, u) \<in> set ?B1 \<longleftrightarrow> (pid, u) \<in> set ?B"
      using m1 k1 that by force
  qed
  have 1: "users db' = users db" "pull_requests db' = pull_requests db" "teams db' = teams db"
    using f1 f2 by simp_all
  have 2: "\<forall>b \<in> set ?B'. snd b \<in> S \<longrightarrow> b \<in> set ?B"
    using m1 m2 by blast
  have 3: "\<forall>b \<in> set ?B. snd b \<notin> set (uid # rest) \<longrightarrow> b \<in> set ?B'"
    using k1 k2 by simp
  have gone': "open_reviews db' uid = []"
  proof (rule ccontr)
    assume "open_reviews db' uid \<noteq> []"
    then obtain p where "p \<in> set (open_reviews db' uid)"
      by (meson last_in_set)
    then have p: "p \<in> set (pull_requests db1)" "r_status p = StatusOpen"
      "(r_id p, uid) \<in> set ?B'"
      unfolding open_reviews_mem f2 by simp_all
    from p(3) m2 uidS have "(r_id p, uid) \<in> set ?B1" by force
    with p(1,2) have "p \<in> set (open_reviews db1 uid)"
      unfolding open_reviews_mem by simp
    with gone1 show False by simp
  qed
  have 4: "\<forall>u \<in> set (uid # rest). open_reviews db' u = []"
    using gone' g2 by simp
  have un: "r_id ` set (open_reviews db uid) \<union> r_id ` set (concat (map (open_reviews db1) rest)) =
        r_id ` set (concat (map (open_reviews db) (uid # rest)))"
  proof -
    have "set (open_reviews db uid) \<union> set (concat (map (open_reviews db1) rest)) =
          set (concat (map (open_reviews db) (uid # rest)))"
    proof (intro equalityI subsetI)
      fix p assume "p \<in> set (open_reviews db uid) \<union> set (concat (map (open_reviews db1) rest))"
      then consider "p \<in> set (open_reviews db uid)"
        | u where "u \<in> set rest" "p \<in> set (open_reviews db1 u)" by auto
      then show "p \<in> set (concat (map (open_reviews db) (uid # rest)))"
      proof cases
        case 1
        then show ?thesis by simp
      next
        case 2
        show ?thesis
        proof (cases "u = uid")
          case True
          with 2(2) gone1 show ?thesis by simp
        next
          case False
          with 2 restS same1 [of u] have "p \<in> set (open_reviews db u)" by auto
          with 2(1) show ?thesis by auto
        qed
      qed
    next
      fix p assume "p \<in> set (concat (map (open_reviews db) (uid # rest)))"
      then consider "p \<in> set (open_reviews db uid)"
        | u where "u \<in> set rest" "p \<in> set (open_reviews db u)" by auto
      then show "p \<in> set (open_reviews db uid) \<union> set (concat (map (open_reviews db1) rest))"
      proof cases
        case 1
        then show ?thesis by simp
      next
        case 2
        show ?thesis
        proof (cases "u = uid")
          case True
          with 2(2) show ?thesis by simp
        next
          case False
          with 2 restS same1 [of u] have "p \<in> set (open_reviews db1 u)" by auto
          with 2(1) show ?thesis by auto
        qed
      qed
    qed
    then show ?thesis by (simp only: image_Un [symmetric])
  qed
  have 5: "aff' = aff \<union> r_id ` set (concat (map (open_reviews db) (uid # rest)))"
    unfolding a2 a1' un [symmetric] by (simp only: Un_assoc)
  have 6: "b_Deactivated res' = b_Deactivated res" "b_TeamName res' = b_TeamName res"
    using s1 s2 by simp_all
  have 7: "distinct ?B \<longrightarrow>
        distinct ?B' \<and>
        b_ReassignedReviewers res' + b_RemovedReviewers res' =
          b_ReassignedReviewers res + b_RemovedReviewers res +
          (\<Sum>u \<in> set (uid # rest). length (open_reviews db u))"
  proof
    assume dB: "distinct ?B"
    with d1 have dB1: "distinct ?B1" by simp
    with d2 have dB': "distinct ?B'"
      and c2: "b_ReassignedReviewers res' + b_RemovedReviewers res' =
          b_ReassignedReviewers res1 + b_RemovedReviewers res1 +
          (\<Sum>u \<in> set rest. length (open_reviews db1 u))" by simp_all
    have len: "length (filter (\<lambda>ps. s_Status ps = StatusOpen) ?prs) = length (open_reviews db uid)"
      using dB by (rule snapshot_open_length)
    have "(\<Sum>u \<in> set rest. length (open_reviews db1 u)) =
          (\<Sum>u \<in> set rest - {uid}. length (open_reviews db1 u))"
      using gone1 by (intro sum.mono_neutral_right) auto
    also have "\<dots> = (\<Sum>u \<in> set rest - {uid}. length (open_reviews db u))"
      using restS same1 by (intro sum.cong) auto
    finally have sm: "(\<Sum>u \<in> set rest. length (open_reviews db1 u)) =
          (\<Sum>u \<in> set rest - {uid}. length (open_reviews db u))" .
    have "(\<Sum>u \<in> set (uid # rest). length (open_reviews db u)) =
          length (open_reviews db uid) + (\<Sum>u \<in> set rest - {uid}. length (open_reviews db u))"
      by (simp add: sum.insert_remove)
    with c1 c2 len sm dB'
    show "distinct ?B' \<and>
        b_ReassignedReviewers res' + b_RemovedReviewers res' =
          b_ReassignedReviewers res + b_RemovedReviewers res +
          (\<Sum>u \<in> set (uid # rest). length (open_reviews db u))"
      by simp
  qed
  show ?thesis
    unfolding bulk_post_def
    apply (intro conjI)
    apply (fact 1 2 3 4 5 6 7)+
    done
qed


lemma bulk_post_Nil: "bulk_post S [] res aff db res aff db"
  by (simp add: bulk_post_def)

lemma reassign_loop_Cons:
  "reassign_loop (uid # rest) res aff (db, g) =
     (case reassign_prs uid (fst (Repository_GetPRsForReviewer db uid)) res aff (db, g) of
        (Some err, res1, aff1, s1) \<Rightarrow> (Some err, res1, aff1, s1)
      | (None, res1, aff1, s1) \<Rightarrow> reassign_loop rest res1 aff1 s1)"
  by (simp add: Service_GetUserReviews_def Repository_GetPRsForReviewer_def)

lemma reassign_loop_None:
  assumes "reassign_loop uids res aff (db, g) = (None, res', aff', (db', g'))"
    and "\<forall>u \<in> set (users db). UserID u \<in> S \<longrightarrow> \<not> IsActive u"
    and "set uids \<subseteq> S"
  shows "bulk_post S uids res aff db res' aff' db'"
  using assms
proof (induction uids arbitrary: res aff db g)
  case Nil
  then show ?case by (simp add: bulk_post_Nil)
next
  case (Cons uid rest)
  let ?prs = "fst (Repository_GetPRsForReviewer db uid)"
  obtain e res1 aff1 db1 g1 where
    inner: "reassign_prs uid ?prs res aff (db, g) = (e, res1, aff1, (db1, g1))"
    by (metis surj_pair)
  have e: "e = None"
  proof (cases e)
    case (Some err)
    with inner Cons.prems(1) show ?thesis
      unfolding reassign_loop_Cons by simp
  qed
  have rest: "reassign_loop rest res1 aff1 (db1, g1) = (None, res', aff', (db', g'))"
    using Cons.prems(1) inner unfolding reassign_loop_Cons e by simp
  from Cons.prems(3) have uidS: "uid \<in> S" and restS: "set rest \<subseteq> S" by simp_all
  have lp: "loop_post S uid ?prs res aff db res1 aff1 db1"
    using inner [unfolded e] Cons.prems(2) uidS by (rule reassign_prs_None)
  then have "users db1 = users db" unfolding loop_post_def by blast
  with Cons.prems(2) have inact1: "\<forall>u \<in> set (users db1). UserID u \<in> S \<longrightarrow> \<not> IsActive u"
    by simp
  have bp: "bulk_post S rest res1 aff1 db1 res' aff' db'"
    using rest inact1 restS by (rule Cons.IH)
  show ?case using lp bp uidS restS by (rule bulk_post_step)
qed


lemma open_reviews_deactivate_all [simp]:
  "open_reviews (deactivate_all uids db) uid = open_reviews db uid"
  by (simp add: open_reviews_def deactivate_all_def)

lemma deactivate_all_frame [simp]:
  "pull_requests (deactivate_all uids db) = pull_requests db"
  "pull_request_reviewers (deactivate_all uids db) = pull_request_reviewers db"
  "teams (deactivate_all uids db) = teams db"
  by (simp_all add: deactivate_all_def)

lemma deactivate_all_inactive:
  "\<forall>u \<in> set (users (deactivate_all uids db)). UserID u \<in> set uids \<longrightarrow> \<not> IsActive u"
  by (auto simp: deactivate_all_def)

lemma bulk_run_valid:
  assumes d: "distinct (map UserID (users db))"
    and v: "\<forall>uid \<in> set userIDs. valid_member db teamName uid"
    and ne: "userIDs \<noteq> []"
  shows "Service_DeactivateTeamUsersAndReassign teamName userIDs (db, g) =
     (case reassign_loop userIDs ((zero_result teamName)\<lparr>b_Deactivated := userIDs\<rparr>) {}
             (deactivate_all userIDs db, g) of
        (Some err, res2, affectedPRs, s2) \<Rightarrow> ((res2, Some err), s2)
      | (None, res2, affectedPRs, s2) \<Rightarrow>
          ((res2\<lparr>b_AffectedPullRequests := card affectedPRs\<rparr>, None), s2))"
proof -
  have "deactivate_loop teamName userIDs (zero_result teamName) [] db =
      (None, (zero_result teamName)\<lparr>b_Deactivated := b_Deactivated (zero_result teamName) @ userIDs\<rparr>,
       [] @ userIDs, deactivate_all userIDs db)"
    using d v by (rule deactivate_loop_valid)
  then have "deactivate_loop teamName userIDs (zero_result teamName) [] db =
      (None, (zero_result teamName)\<lparr>b_Deactivated := userIDs\<rparr>, userIDs,
       deactivate_all userIDs db)"
    by (simp add: zero_result_def)
  then show ?thesis
    using ne
    by (simp add: Service_DeactivateTeamUsersAndReassign_def zero_result_def [symmetric]
        del: deactivate_loop.simps reassign_loop.simps)
qed

lemma bulk_success_valid:
  assumes d: "distinct (map UserID (users db))"
    and ok: "Service_DeactivateTeamUsersAndReassign teamName userIDs (db, g) = ((res, None), s')"
  shows "\<forall>uid \<in> set userIDs. valid_member db teamName uid"
proof (rule ccontr)
  assume "\<not> (\<forall>uid \<in> set userIDs. valid_member db teamName uid)"
  then have "\<exists>uid \<in> set userIDs. \<not> valid_member db teamName uid" by simp
  then obtain pre bad post where sp: "userIDs = pre @ bad # post"
    and bad: "\<not> valid_member db teamName bad"
    and pre: "\<forall>uid \<in> set pre. \<not> \<not> valid_member db teamName uid"
    by (rule split_list_first_propE)
  have "deactivate_loop teamName (pre @ bad # post) (zero_result teamName) [] db =
         (Some (DomainError ErrorCodeNotFound (abort_message db teamName bad)),
          (zero_result teamName)\<lparr>b_Deactivated := b_Deactivated (zero_result teamName) @ pre\<rparr>,
          [] @ pre, deactivate_all pre db)"
    using d pre bad by (intro deactivate_loop_abort) simp_all
  then have "snd (fst (Service_DeactivateTeamUsersAndReassign teamName userIDs (db, g))) =
      Some (DomainError ErrorCodeNotFound (abort_message db teamName bad))"
    unfolding sp
    by (simp add: Service_DeactivateTeamUsersAndReassign_def zero_result_def [symmetric]
        del: deactivate_loop.simps reassign_loop.simps)
  with ok show False by simp
qed


lemma bulk_success:
  assumes d: "distinct (map UserID (users db))"
    and ok: "Service_DeactivateTeamUsersAndReassign teamName userIDs (db, g) =
             ((res, None), (db', g'))"
  shows "b_Deactivated res = userIDs \<and> b_TeamName res = teamName \<and>
    users db' = users (deactivate_all userIDs db) \<and>
    pull_requests db' = pull_requests db \<and> teams db' = teams db \<and>
    (\<forall>uid \<in> set userIDs. open_reviews db' uid = []) \<and>
    b_AffectedPullRequests res = card (r_id ` set (concat (map (open_reviews db) userIDs))) \<and>
    (distinct (pull_request_reviewers db) \<longrightarrow>
       distinct (pull_request_reviewers db') \<and>
       b_ReassignedReviewers res + b_RemovedReviewers res =
         (\<Sum>uid \<in> set userIDs. length (open_reviews db uid))) \<and>
    (\<forall>b \<in> set (pull_request_reviewers db'). snd b \<in> set userIDs \<longrightarrow>
       b \<in> set (pull_request_reviewers db)) \<and>
    (\<forall>b \<in> set (pull_request_reviewers db). snd b \<notin> set userIDs \<longrightarrow>
       b \<in> set (pull_request_reviewers db'))"
proof (cases "userIDs = []")
  case True
  with ok have "res = zero_result teamName" "db' = db"
    by (simp_all add: Service_DeactivateTeamUsersAndReassign_def zero_result_def)
  with True show ?thesis by (simp add: zero_result_def)
next
  case False
  let ?res1 = "(zero_result teamName)\<lparr>b_Deactivated := userIDs\<rparr>"
  let ?db1 = "deactivate_all userIDs db"
  have v: "\<forall>uid \<in> set userIDs. valid_member db teamName uid"
    using d ok by (rule bulk_success_valid)
  note run = bulk_run_valid [OF d v False, of g]
  obtain e res2 aff db2 g2 where
    loop: "reassign_loop userIDs ?res1 {} (?db1, g) = (e, res2, aff, (db2, g2))"
    by (metis surj_pair)
  have e: "e = None"
  proof (cases e)
    case (Some err)
    with run loop ok show ?thesis by simp
  qed
  from run loop ok have res: "res = res2\<lparr>b_AffectedPullRequests := card aff\<rparr>"
    and db': "db' = db2"
    unfolding e by simp_all
  have bp: "bulk_post (set userIDs) userIDs ?res1 {} ?db1 res2 aff db2"
    using loop [unfolded e] deactivate_all_inactive [of userIDs db] subset_refl
    by (rule reassign_loop_None)
  from bp have
    f: "users db2 = users ?db1" "pull_requests db2 = pull_requests ?db1" "teams db2 = teams ?db1"
    and m: "\<forall>b \<in> set (pull_request_reviewers db2). snd b \<in> set userIDs \<longrightarrow>
          b \<in> set (pull_request_reviewers ?db1)"
    and k: "\<forall>b \<in> set (pull_request_reviewers ?db1). snd b \<notin> set userIDs \<longrightarrow>
          b \<in> set (pull_request_reviewers db2)"
    and gn: "\<forall>uid \<in> set userIDs. open_reviews db2 uid = []"
    and a: "aff = {} \<union> r_id ` set (concat (map (open_reviews ?db1) userIDs))"
    and sm: "b_Deactivated res2 = b_Deactivated ?res1" "b_TeamName res2 = b_TeamName ?res1"
    and c: "distinct (pull_request_reviewers ?db1) \<longrightarrow>
        distinct (pull_request_reviewers db2) \<and>
        b_ReassignedReviewers res2 + b_RemovedReviewers res2 =
          b_ReassignedReviewers ?res1 + b_RemovedReviewers ?res1 +
          (\<Sum>uid \<in> set userIDs. length (open_reviews ?db1 uid))"
    unfolding bulk_post_def by blast+
  have 1: "b_Deactivated res = userIDs" "b_TeamName res = teamName"
    using sm by (simp_all add: res zero_result_def)
  have 2: "users db' = users ?db1" "pull_requests db' = pull_requests db" "teams db' = teams db"
    using f by (simp_all add: db')
  have 3: "\<forall>uid \<in> set userIDs. open_reviews db' uid = []"
    using gn by (simp add: db')
  have "map (open_reviews ?db1) userIDs = map (open_reviews db) userIDs"
    by simp
  with a have 4: "b_AffectedPullRequests res =
      card (r_id ` set (concat (map (open_reviews db) userIDs)))"
    by (simp add: res)
  have 5: "distinct (pull_request_reviewers db) \<longrightarrow>
       distinct (pull_request_reviewers db') \<and>
       b_ReassignedReviewers res + b_RemovedReviewers res =
         (\<Sum>uid \<in> set userIDs. length (open_reviews db uid))"
    using c by (simp add: res db' zero_result_def)
  have 6: "\<forall>b \<in> set (pull_request_reviewers db'). snd b \<in> set userIDs \<longrightarrow>
       b \<in> set (pull_request_reviewers db)"
    using m by (simp add: db')
  have 7: "\<forall>b \<in> set (pull_request_reviewers db). snd b \<notin> set userIDs \<longrightarrow>
       b \<in> set (pull_request_reviewers db')"
    using k by (simp add: db')
  show ?thesis
    apply (intro conjI)
    apply (fact 1 2 3 4 5 6 7)+
    done
qed

lemma deactivate_all_set_cong:
  "set xs = set ys \<Longrightarrow> deactivate_all xs db = deactivate_all ys db"
  by (simp add: deactivate_all_def)

lemma bulk_pre_deactivated:
  assumes d: "distinct (map UserID (users db))"
    and v: "\<forall>uid \<in> set userIDs. valid_member db teamName uid"
    and sub: "set xs \<subseteq> set userIDs"
  shows "Service_DeactivateTeamUsersAndReassign teamName userIDs (deactivate_all xs db, g) =
         Service_DeactivateTeamUsersAndReassign teamName userIDs (db, g)"
proof (cases "userIDs = []")
  case True
  with sub have "xs = []" by simp
  then show ?thesis by simp
next
  case False
  have d': "distinct (map UserID (users (deactivate_all xs db)))"
    using d by simp
  have v': "\<forall>uid \<in> set userIDs. valid_member (deactivate_all xs db) teamName uid"
    using v by simp
  have "set (xs @ userIDs) = set userIDs" using sub by auto
  then have "deactivate_all userIDs (deactivate_all xs db) = deactivate_all userIDs db"
    unfolding deactivate_all_append by (rule deactivate_all_set_cong)
  then show ?thesis
    unfolding bulk_run_valid [OF d' v' False] bulk_run_valid [OF d v False] by simp
qed


























section \<open>Merging a pull request\<close>

text \<open>
  C6. Merging is idempotent. Merging a pull request that does not exist fails with NotFound
  and changes nothing. Merging an existing pull request succeeds with status MERGED; its
  merge timestamp is the one it had, or the time of the merge when it had none (as every
  OPEN pull request). The store then holds exactly the returned record, and merging it
  again at any later time returns the same record and leaves the store as it is. A stored
  pull request that is MERGED with a timestamp is not changed at all by a merge.
\<close>

theorem merge_pr_idempotent:
  "(\<not> pr_exists db prID \<longrightarrow>
      Service_MergePR now prID (db, g) =
        (Inl (DomainError ErrorCodeNotFound ''pull request not found''), (db, g))) \<and>
   (\<forall>row. find (\<lambda>p. r_id p = prID) (pull_requests db) = Some row \<longrightarrow>
      (\<exists>pr db'. Service_MergePR now prID (db, g) = (Inr pr, (db', g)) \<and>
         ID pr = prID \<and> Status pr = StatusMerged \<and>
         MergedAt pr = (case r_merged_at row of None \<Rightarrow> Some now | Some t \<Rightarrow> Some t) \<and>
         Repository_GetPR db' prID = Inr pr \<and>
         Service_MergePR now' prID (db', g) = (Inr pr, (db', g)) \<and>
         (r_status row = StatusMerged \<and> r_merged_at row \<noteq> None \<and>
            distinct (map r_id (pull_requests db)) \<longrightarrow> db' = db)))"
proof (intro conjI impI allI)
  assume "\<not> pr_exists db prID"
  then have "find (\<lambda>p. r_id p = prID) (pull_requests db) = None"
    by (simp add: find_None_pr)
  then show "Service_MergePR now prID (db, g) =
        (Inl (DomainError ErrorCodeNotFound ''pull request not found''), (db, g))"
    by (simp add: Service_MergePR_def Repository_MarkPRMerged_def NewDomainError_def)
next
  fix row
  assume row: "find (\<lambda>p. r_id p = prID) (pull_requests db) = Some row"
  then have id: "r_id row = prID"
    by (auto dest: find_Some_iff[THEN iffD1])
  define db' where
    "db' = db\<lparr>pull_requests :=
               map (\<lambda>p. if r_id p = prID then mark_merged now p else p) (pull_requests db)\<rparr>"
  define pr where "pr = read_pr db' (mark_merged now row)"
  have first: "Service_MergePR now prID (db, g) = (Inr pr, (db', g))"
    using row by (simp add: Service_MergePR_def Repository_MarkPRMerged_def db'_def pr_def Let_def)
  have row': "find (\<lambda>p. r_id p = prID) (pull_requests db') = Some (mark_merged now row)"
    using row by (simp add: db'_def find_map_same_key)
  have get: "Repository_GetPR db' prID = Inr pr"
    using row' by (simp add: Repository_GetPR_def pr_def)
  have again_db: "db'\<lparr>pull_requests :=
        map (\<lambda>p. if r_id p = prID then mark_merged now' p else p) (pull_requests db')\<rparr> = db'"
    by (simp add: db'_def o_def if_distrib cong: if_cong)
  have second: "Service_MergePR now' prID (db', g) = (Inr pr, (db', g))"
    using row' by (simp add: Service_MergePR_def Repository_MarkPRMerged_def Let_def again_db pr_def)
  have props: "ID pr = prID" "Status pr = StatusMerged"
    "MergedAt pr = (case r_merged_at row of None \<Rightarrow> Some now | Some t \<Rightarrow> Some t)"
    using id by (simp_all add: pr_def read_pr_def mark_merged_def)
  have same: "r_status row = StatusMerged \<and> r_merged_at row \<noteq> None \<and>
            distinct (map r_id (pull_requests db)) \<longrightarrow> db' = db"
    using row by (auto simp: db'_def map_mark_merged_fixed mark_merged_fixed)
  from first get second props same
  show "\<exists>pr db'. Service_MergePR now prID (db, g) = (Inr pr, (db', g)) \<and>
         ID pr = prID \<and> Status pr = StatusMerged \<and>
         MergedAt pr = (case r_merged_at row of None \<Rightarrow> Some now | Some t \<Rightarrow> Some t) \<and>
         Repository_GetPR db' prID = Inr pr \<and>
         Service_MergePR now' prID (db', g) = (Inr pr, (db', g)) \<and>
         (r_status row = StatusMerged \<and> r_merged_at row \<noteq> None \<and>
            distinct (map r_id (pull_requests db)) \<longrightarrow> db' = db)"
    by blast
qed

theorem merge_pr_idempotent_witness:
  "\<not> pr_exists ex_db ''p9'' \<and>
   Service_MergePR 9 ''p9'' (ex_db, ex_rng) =
     (Inl (DomainError ErrorCodeNotFound ''pull request not found''), (ex_db, ex_rng)) \<and>
   (\<exists>pr db'. Service_MergePR 9 ''p1'' (ex_db, ex_rng) = (Inr pr, (db', ex_rng)) \<and>
      Status pr = StatusMerged \<and> MergedAt pr = Some 9 \<and>
      Service_MergePR 11 ''p1'' (db', ex_rng) = (Inr pr, (db', ex_rng)))"
proof -
  have none: "\<not> pr_exists ex_db ''p9''"
    by (simp add: pr_exists_def ex_db_def)
  have row: "find (\<lambda>p. r_id p = ''p1'') (pull_requests ex_db) =
      Some \<lparr>r_id = ''p1'', r_name = ''one'', r_author_id = ''a'', r_status = StatusOpen,
            r_created_at = 5, r_merged_at = None\<rparr>"
    by (simp add: ex_db_def)
  from none merge_pr_idempotent [of ex_db "''p9''" 9 ex_rng 11]
  have 1: "Service_MergePR 9 ''p9'' (ex_db, ex_rng) =
     (Inl (DomainError ErrorCodeNotFound ''pull request not found''), (ex_db, ex_rng))"
    by blast
  from row merge_pr_idempotent [of ex_db "''p1''" 9 ex_rng 11]
  obtain pr db' where "Service_MergePR 9 ''p1'' (ex_db, ex_rng) = (Inr pr, (db', ex_rng))"
    "Status pr = StatusMerged" "MergedAt pr = Some 9"
    "Service_MergePR 11 ''p1'' (db', ex_rng) = (Inr pr, (db', ex_rng))"
    by auto
  with none 1 show ?thesis by blast
qed

section \<open>The reviewers of a new pull request\<close>

text \<open>
  C1. In a store that satisfies its constraints, creating a pull request for an author who
  does not exist fails with NotFound and changes nothing. For an existing author and a new
  pull-request id the creation succeeds, whatever the generator: the reviewers are the
  first two entries (in id order) of what \<open>shuffle\<close> makes of the ids of the other active
  members of the author's team with the generator of the service, and the service goes on
  with the generator that \<open>shuffle\<close> returns. The shuffled list is a permutation of these
  ids, so there are exactly min(N, 2) reviewers for N such members, they are distinct,
  none is the author, and each is an active user of the author's team.
\<close>

theorem create_pr_assigns_reviewers:
  assumes wf: "wf_db db"
  shows
  "(\<not> user_exists db (in_AuthorID inp) \<longrightarrow>
      Service_CreatePR now inp (db, g) =
        (Inl (DomainError ErrorCodeNotFound ''author not found''), (db, g))) \<and>
   (\<forall>author.
      find (\<lambda>u. UserID u = in_AuthorID inp) (users db) = Some author \<and>
      \<not> pr_exists db (in_ID inp) \<longrightarrow>
      (\<exists>pr db' g' shuffled.
         shuffle g (map UserID (other_active db author)) = (shuffled, g') \<and>
         Service_CreatePR now inp (db, g) = (Inr pr, (db', g')) \<and>
         Repository_GetPR db' (in_ID inp) = Inr pr \<and>
         ID pr = in_ID inp \<and> AuthorID pr = in_AuthorID inp \<and> Status pr = StatusOpen \<and>
         mset shuffled = mset (map UserID (other_active db author)) \<and>
         AssignedReviewers pr = sort (take 2 shuffled) \<and>
         length (AssignedReviewers pr) = min (length (other_active db author)) 2 \<and>
         distinct (AssignedReviewers pr) \<and>
         in_AuthorID inp \<notin> set (AssignedReviewers pr) \<and>
         (\<forall>r \<in> set (AssignedReviewers pr).
            \<exists>u \<in> set (users db).
              UserID u = r \<and> IsActive u \<and> TeamName u = TeamName author)))"
proof (intro conjI allI impI)
  assume "\<not> user_exists db (in_AuthorID inp)"
  then show "Service_CreatePR now inp (db, g) =
        (Inl (DomainError ErrorCodeNotFound ''author not found''), (db, g))"
    by (rule create_pr_author_missing)
next
  fix author
  assume h: "find (\<lambda>u. UserID u = in_AuthorID inp) (users db) = Some author \<and>
      \<not> pr_exists db (in_ID inp)"
  then have a: "find (\<lambda>u. UserID u = in_AuthorID inp) (users db) = Some author"
    and fresh: "\<not> pr_exists db (in_ID inp)" by simp_all
  from a have aid: "UserID author = in_AuthorID inp" by (rule find_key_id)
  obtain shuffled g' where sh: "shuffle g (map UserID (other_active db author)) = (shuffled, g')"
    by (cases "shuffle g (map UserID (other_active db author))")
  let ?pr = "\<lparr>ID = in_ID inp, Name = in_Name inp, AuthorID = in_AuthorID inp,
                 Status = StatusOpen, AssignedReviewers = sort (take 2 shuffled),
                 CreatedAt = Some now, MergedAt = None\<rparr>"
  from create_pr_run [OF wf a fresh sh, of now]
  obtain db' where run: "Service_CreatePR now inp (db, g) = (Inr ?pr, (db', g'))"
    and get: "Repository_GetPR db' (in_ID inp) = Inr ?pr"
    by blast
  have ms: "mset shuffled = mset (map UserID (other_active db author))"
    using shuffle_mset [of g "map UserID (other_active db author)"] sh by simp
  have len: "length shuffled = length (other_active db author)"
    using ms [THEN mset_eq_length] by simp
  have dist: "distinct shuffled"
    using other_active_distinct [OF wf, of author] ms by (metis mset_eq_imp_distinct_iff)
  have set_eq: "set shuffled = UserID ` set (other_active db author)"
    using ms [THEN mset_eq_setD] by simp
  have sub: "set (take 2 shuffled) \<subseteq> UserID ` set (other_active db author)"
    using set_eq set_take_subset [of 2 shuffled] by simp
  have 1: "length (AssignedReviewers ?pr) = min (length (other_active db author)) 2"
    using len by simp
  have 2: "distinct (AssignedReviewers ?pr)"
    using dist by simp
  have 3: "in_AuthorID inp \<notin> set (AssignedReviewers ?pr)"
    using sub aid by (auto simp: other_active_def)
  have 4: "\<forall>r \<in> set (AssignedReviewers ?pr).
            \<exists>u \<in> set (users db). UserID u = r \<and> IsActive u \<and> TeamName u = TeamName author"
    using sub by (auto simp: other_active_def)
  have 5: "AssignedReviewers ?pr = sort (take 2 shuffled)" "ID ?pr = in_ID inp"
    "AuthorID ?pr = in_AuthorID inp" "Status ?pr = StatusOpen"
    by simp_all
  from sh run get ms 1 2 3 4 5
  show "\<exists>pr db' g' shuffled.
         shuffle g (map UserID (other_active db author)) = (shuffled, g') \<and>
         Service_CreatePR now inp (db, g) = (Inr pr, (db', g')) \<and>
         Repository_GetPR db' (in_ID inp) = Inr pr \<and>
         ID pr = in_ID inp \<and> AuthorID pr = in_AuthorID inp \<and> Status pr = StatusOpen \<and>
         mset shuffled = mset (map UserID (other_active db author)) \<and>
         AssignedReviewers pr = sort (take 2 shuffled) \<and>
         length (AssignedReviewers pr) = min (length (other_active db author)) 2 \<and>
         distinct (AssignedReviewers pr) \<and>
         in_AuthorID inp \<notin> set (AssignedReviewers pr) \<and>
         (\<forall>r \<in> set (AssignedReviewers pr).
            \<exists>u \<in> set (users db).
              UserID u = r \<and> IsActive u \<and> TeamName u = TeamName author)"
    by blast
qed



theorem create_pr_assigns_reviewers_witness:
  "wf_db ex_db \<and> \<not> pr_exists ex_db ''p4'' \<and> \<not> user_exists ex_db ''zz'' \<and>
   Service_CreatePR 9 \<lparr>in_ID = ''p4'', in_Name = ''four'', in_AuthorID = ''zz''\<rparr> (ex_db, ex_rng) =
     (Inl (DomainError ErrorCodeNotFound ''author not found''), (ex_db, ex_rng)) \<and>
   (\<exists>pr db' g'.
      Service_CreatePR 9 \<lparr>in_ID = ''p4'', in_Name = ''four'', in_AuthorID = ''a''\<rparr> (ex_db, ex_rng) =
        (Inr pr, (db', g')) \<and>
      AssignedReviewers pr = [''c'', ''d''] \<and>
      length (AssignedReviewers pr) = 2 \<and> distinct (AssignedReviewers pr) \<and>
      ''a'' \<notin> set (AssignedReviewers pr)) \<and>
   (\<exists>pr db' g'.
      Service_CreatePR 9 \<lparr>in_ID = ''p4'', in_Name = ''four'', in_AuthorID = ''a''\<rparr> (ex_db, ex_rng0) =
        (Inr pr, (db', g')) \<and>
      AssignedReviewers pr = [''b'', ''d''] \<and>
      length (AssignedReviewers pr) = 2 \<and> distinct (AssignedReviewers pr) \<and>
      ''a'' \<notin> set (AssignedReviewers pr))"
proof -
  let ?a = "\<lparr>UserID = ''a'', Username = ''A'', TeamName = ''core'', IsActive = True\<rparr>"
  let ?inz = "\<lparr>in_ID = ''p4'', in_Name = ''four'', in_AuthorID = ''zz''\<rparr>"
  let ?ina = "\<lparr>in_ID = ''p4'', in_Name = ''four'', in_AuthorID = ''a''\<rparr>"
  have fresh: "\<not> pr_exists ex_db ''p4''" and zz: "\<not> user_exists ex_db ''zz''"
    by (simp_all add: pr_exists_def user_exists_def ex_db_def)
  have a: "find (\<lambda>u. UserID u = ''a'') (users ex_db) = Some ?a"
    by (simp add: ex_db_def)
  have n: "length (other_active ex_db ?a) = 3"
    by (simp add: other_active_def ex_db_def)
  have ids: "map UserID (other_active ex_db ?a) = [''d'', ''c'', ''b'']"
    by (simp add: other_active_def ex_db_def)
  have s1: "sort (take 2 (fst (shuffle ex_rng [''d'', ''c'', ''b'']))) = [''c'', ''d'']"
    and s0: "sort (take 2 (fst (shuffle ex_rng0 [''d'', ''c'', ''b'']))) = [''b'', ''d'']"
    by code_simp+
  have 1: "Service_CreatePR 9 ?inz (ex_db, ex_rng) =
     (Inl (DomainError ErrorCodeNotFound ''author not found''), (ex_db, ex_rng))"
    using zz create_pr_assigns_reviewers [OF wf_ex_db, of ?inz 9 ex_rng] by simp
  have pre: "find (\<lambda>u. UserID u = in_AuthorID ?ina) (users ex_db) = Some ?a \<and>
      \<not> pr_exists ex_db (in_ID ?ina)"
    using a fresh by simp
  have run: "\<exists>pr db' g'.
      Service_CreatePR 9 ?ina (ex_db, g) = (Inr pr, (db', g')) \<and>
      AssignedReviewers pr = sort (take 2 (fst (shuffle g [''d'', ''c'', ''b'']))) \<and>
      length (AssignedReviewers pr) = 2 \<and> distinct (AssignedReviewers pr) \<and>
      ''a'' \<notin> set (AssignedReviewers pr)" for g
  proof -
    from pre create_pr_assigns_reviewers [OF wf_ex_db, of ?ina 9 g, THEN conjunct2, THEN spec, of ?a]
    obtain pr db' g' shuffled where
      sh: "shuffle g (map UserID (other_active ex_db ?a)) = (shuffled, g')"
      and r: "Service_CreatePR 9 ?ina (ex_db, g) = (Inr pr, (db', g'))"
      and rs: "AssignedReviewers pr = sort (take 2 shuffled)"
      and l: "length (AssignedReviewers pr) = min (length (other_active ex_db ?a)) 2"
      and d: "distinct (AssignedReviewers pr)"
      and na: "in_AuthorID ?ina \<notin> set (AssignedReviewers pr)"
      by blast
    from sh have "shuffled = fst (shuffle g [''d'', ''c'', ''b''])"
      unfolding ids by simp
    with rs have rs': "AssignedReviewers pr = sort (take 2 (fst (shuffle g [''d'', ''c'', ''b''])))"
      by simp
    have l2: "length (AssignedReviewers pr) = 2" using l n by simp
    have na2: "''a'' \<notin> set (AssignedReviewers pr)" using na by simp
    from r rs' l2 d na2 show ?thesis by blast
  qed
  from run [of ex_rng] have A: "\<exists>pr db' g'.
      Service_CreatePR 9 ?ina (ex_db, ex_rng) = (Inr pr, (db', g')) \<and>
      AssignedReviewers pr = [''c'', ''d''] \<and>
      length (AssignedReviewers pr) = 2 \<and> distinct (AssignedReviewers pr) \<and>
      ''a'' \<notin> set (AssignedReviewers pr)"
    unfolding s1 .
  from run [of ex_rng0] have B: "\<exists>pr db' g'.
      Service_CreatePR 9 ?ina (ex_db, ex_rng0) = (Inr pr, (db', g')) \<and>
      AssignedReviewers pr = [''b'', ''d''] \<and>
      length (AssignedReviewers pr) = 2 \<and> distinct (AssignedReviewers pr) \<and>
      ''a'' \<notin> set (AssignedReviewers pr)"
    unfolding s0 .
  from wf_ex_db fresh zz 1 A B show ?thesis by blast
qed

section \<open>A successful reassignment\<close>

text \<open>
  C2. When a reassignment succeeds, the pull request is OPEN and the old user was one of its
  reviewers; the binding of the old reviewer is rewritten to the new reviewer and every
  other binding, of this and of every other pull request, is as before (in a store with
  distinct bindings exactly one row is rewritten), and teams, users and pull requests are
  untouched. The new reviewer is an active user on the old reviewer's team, is not the
  author, is not the old reviewer and was not an assigned reviewer. The returned pull
  request is the stored one; its reviewers are the old ones with the old reviewer replaced
  by the new one. The update of the binding fails with an error, and changes nothing, when
  no row holds the old reviewer.
\<close>

theorem reassign_success_replaces_one:
  "(Service_ReassignReviewer prID oldUserID (db, g) = (Inr rr, (db', g')) \<longrightarrow>
      (\<exists>row oldUser newUser.
         find (\<lambda>p. r_id p = prID) (pull_requests db) = Some row \<and>
         r_status row = StatusOpen \<and>
         find (\<lambda>u. UserID u = oldUserID) (users db) = Some oldUser \<and>
         oldUserID \<in> set (reviewers_of db prID) \<and>
         newUser \<in> set (users db) \<and> UserID newUser = rr_ReplacedBy rr \<and>
         IsActive newUser \<and> TeamName newUser = TeamName oldUser \<and>
         rr_ReplacedBy rr \<noteq> r_author_id row \<and>
         rr_ReplacedBy rr \<noteq> oldUserID \<and>
         rr_ReplacedBy rr \<notin> set (reviewers_of db prID) \<and>
         pull_request_reviewers db' =
           map (\<lambda>b. if b = (prID, oldUserID) then (prID, rr_ReplacedBy rr) else b)
             (pull_request_reviewers db) \<and>
         teams db' = teams db \<and> users db' = users db \<and>
         pull_requests db' = pull_requests db \<and>
         (\<forall>q. q \<noteq> prID \<longrightarrow> reviewers_of db' q = reviewers_of db q) \<and>
         Repository_GetPR db' prID = Inr (rr_PR rr) \<and>
         set (AssignedReviewers (rr_PR rr)) =
           insert (rr_ReplacedBy rr) (set (reviewers_of db prID) - {oldUserID}) \<and>
         length (AssignedReviewers (rr_PR rr)) = length (reviewers_of db prID) \<and>
         (distinct (pull_request_reviewers db) \<longrightarrow>
            length (filter (\<lambda>b. b = (prID, oldUserID)) (pull_request_reviewers db)) = 1))) \<and>
   (\<forall>new. (prID, oldUserID) \<notin> set (pull_request_reviewers db) \<longrightarrow>
      Repository_ReassignReviewer db prID oldUserID new =
        (Some (ErrOther ''no reviewer row updated''), db))"
proof (intro conjI allI impI)
  fix new
  assume "(prID, oldUserID) \<notin> set (pull_request_reviewers db)"
  then show "Repository_ReassignReviewer db prID oldUserID new =
        (Some (ErrOther ''no reviewer row updated''), db)"
    by (rule repo_reassign_no_row)
next
  assume ok: "Service_ReassignReviewer prID oldUserID (db, g) = (Inr rr, (db', g'))"
  then obtain row oldUser where
    row: "find (\<lambda>p. r_id p = prID) (pull_requests db) = Some row"
    and nm: "r_status row \<noteq> StatusMerged"
    and u: "find (\<lambda>u. UserID u = oldUserID) (users db) = Some oldUser"
    and asg: "oldUserID \<in> set (reviewers_of db prID)"
    and team: "team_exists db (TeamName oldUser)"
    and pool: "candidate_pool db row oldUser \<noteq> []"
    by (rule reassign_success_cases)
  obtain shuffled g1 where
    sh: "shuffle g (map UserID (candidate_pool db row oldUser)) = (shuffled, g1)"
    by (cases "shuffle g (map UserID (candidate_pool db row oldUser))")
  let ?new = "shuffled ! 0"
  let ?swap = "\<lambda>b. if b = (prID, oldUserID) then (prID, ?new) else b"
  let ?db' = "db\<lparr>pull_request_reviewers := map ?swap (pull_request_reviewers db)\<rparr>"
  from row have id: "r_id row = prID" by (rule find_key_id)
  from u have uid: "UserID oldUser = oldUserID" by (rule find_key_id)
  have run: "Service_ReassignReviewer prID oldUserID (db, g) =
      (Inr \<lparr>rr_PR = read_pr ?db' row, rr_ReplacedBy = ?new\<rparr>, (?db', g1))"
    and mem: "?new \<in> UserID ` set (candidate_pool db row oldUser)"
    using reassign_run [OF row nm u asg team pool sh] by simp_all
  from ok [symmetric, THEN trans, OF run] have rr: "rr = \<lparr>rr_PR = read_pr ?db' row, rr_ReplacedBy = ?new\<rparr>"
    and db': "db' = ?db'" by (simp_all only: prod.inject sum.inject)
  have new: "rr_ReplacedBy rr = ?new" and prr: "rr_PR rr = read_pr ?db' row"
    by (simp_all add: rr)
  from mem obtain c where c: "c \<in> set (candidate_pool db row oldUser)" "UserID c = ?new"
    by auto
  from c(1) have cprops: "c \<in> set (users db)" "IsActive c" "TeamName c = TeamName oldUser"
    "UserID c \<noteq> r_author_id row" "UserID c \<noteq> oldUserID"
    "UserID c \<notin> set (reviewers_of db prID)"
    unfolding candidate_pool_def id uid by simp_all
  have old_row: "(prID, oldUserID) \<in> set (pull_request_reviewers db)"
    using asg by (simp add: reviewers_of_mem)
  have "find (\<lambda>p. r_id p = prID) (pull_requests ?db') = Some row"
    using row by simp
  then have get: "Repository_GetPR db' prID = Inr (rr_PR rr)"
    unfolding db' prr by (rule GetPR_found)
  have set_eq: "set (AssignedReviewers (rr_PR rr)) =
           insert (rr_ReplacedBy rr) (set (reviewers_of db prID) - {oldUserID})"
    using reviewers_after_swap [OF old_row, where db = db and new = ?new] by (simp add: prr new id)
  have len: "length (AssignedReviewers (rr_PR rr)) = length (reviewers_of db prID)"
    using reviewers_length_after_swap [where db = db and prID = prID and old = oldUserID
        and new = ?new and bs = "pull_request_reviewers db"]
    by (simp add: prr id)
  have others: "\<forall>q. q \<noteq> prID \<longrightarrow> reviewers_of db' q = reviewers_of db q"
    using reviewers_of_other_after_swap [where prID = prID and db = db and old = oldUserID
        and new = ?new and bs = "pull_request_reviewers db"]
    by (simp add: db')
  have one: "distinct (pull_request_reviewers db) \<longrightarrow>
            length (filter (\<lambda>b. b = (prID, oldUserID)) (pull_request_reviewers db)) = 1"
    using old_row by (simp add: distinct_one_row)
  have frame: "pull_request_reviewers db' =
           map (\<lambda>b. if b = (prID, oldUserID) then (prID, rr_ReplacedBy rr) else b)
             (pull_request_reviewers db)"
    "teams db' = teams db" "users db' = users db" "pull_requests db' = pull_requests db"
    by (simp_all add: db' new)
  have st: "r_status row = StatusOpen" using nm by (simp add: status_not_merged)
  have newprops: "c \<in> set (users db)" "UserID c = rr_ReplacedBy rr" "IsActive c"
    "TeamName c = TeamName oldUser" "rr_ReplacedBy rr \<noteq> r_author_id row"
    "rr_ReplacedBy rr \<noteq> oldUserID" "rr_ReplacedBy rr \<notin> set (reviewers_of db prID)"
    using cprops c(2) by (simp_all add: new)
  show "\<exists>row oldUser newUser.
         find (\<lambda>p. r_id p = prID) (pull_requests db) = Some row \<and>
         r_status row = StatusOpen \<and>
         find (\<lambda>u. UserID u = oldUserID) (users db) = Some oldUser \<and>
         oldUserID \<in> set (reviewers_of db prID) \<and>
         newUser \<in> set (users db) \<and> UserID newUser = rr_ReplacedBy rr \<and>
         IsActive newUser \<and> TeamName newUser = TeamName oldUser \<and>
         rr_ReplacedBy rr \<noteq> r_author_id row \<and>
         rr_ReplacedBy rr \<noteq> oldUserID \<and>
         rr_ReplacedBy rr \<notin> set (reviewers_of db prID) \<and>
         pull_request_reviewers db' =
           map (\<lambda>b. if b = (prID, oldUserID) then (prID, rr_ReplacedBy rr) else b)
             (pull_request_reviewers db) \<and>
         teams db' = teams db \<and> users db' = users db \<and>
         pull_requests db' = pull_requests db \<and>
         (\<forall>q. q \<noteq> prID \<longrightarrow> reviewers_of db' q = reviewers_of db q) \<and>
         Repository_GetPR db' prID = Inr (rr_PR rr) \<and>
         set (AssignedReviewers (rr_PR rr)) =
           insert (rr_ReplacedBy rr) (set (reviewers_of db prID) - {oldUserID}) \<and>
         length (AssignedReviewers (rr_PR rr)) = length (reviewers_of db prID) \<and>
         (distinct (pull_request_reviewers db) \<longrightarrow>
            length (filter (\<lambda>b. b = (prID, oldUserID)) (pull_request_reviewers db)) = 1)"
    apply (rule exI [of _ row], rule exI [of _ oldUser], rule exI [of _ c])
    apply (intro conjI)
    apply (fact row st u asg newprops frame others get set_eq len one)+
    done
qed


theorem reassign_success_replaces_one_witness:
  "(\<exists>rr db' g'.
      Service_ReassignReviewer ''p1'' ''b'' (ex_db, ex_rng) = (Inr rr, (db', g')) \<and>
      rr_ReplacedBy rr = ''d'' \<and>
      set (AssignedReviewers (rr_PR rr)) = {''c'', ''d''} \<and>
      pull_request_reviewers db' =
        [(''p1'', ''c''), (''p1'', ''d''), (''p2'', ''a''), (''p3'', ''e'')]) \<and>
   (''p1'', ''zz'') \<notin> set (pull_request_reviewers ex_db) \<and>
   Repository_ReassignReviewer ex_db ''p1'' ''zz'' ''d'' =
     (Some (ErrOther ''no reviewer row updated''), ex_db)"
proof -
  let ?p1 = "\<lparr>r_id = ''p1'', r_name = ''one'', r_author_id = ''a'', r_status = StatusOpen,
          r_created_at = 5, r_merged_at = None\<rparr>"
  let ?b = "\<lparr>UserID = ''b'', Username = ''B'', TeamName = ''core'', IsActive = True\<rparr>"
  have row: "find (\<lambda>p. r_id p = ''p1'') (pull_requests ex_db) = Some ?p1"
    and u: "find (\<lambda>u. UserID u = ''b'') (users ex_db) = Some ?b"
    by (simp_all add: ex_db_def)
  have nm: "r_status ?p1 \<noteq> StatusMerged" by simp
  have asg: "''b'' \<in> set (reviewers_of ex_db ''p1'')"
    by (simp add: reviewers_of_def ex_db_def)
  have team: "team_exists ex_db (TeamName ?b)"
    by (simp add: team_exists_def ex_db_def)
  have pool: "candidate_pool ex_db ?p1 ?b =
      [\<lparr>UserID = ''d'', Username = ''D'', TeamName = ''core'', IsActive = True\<rparr>]"
    by (simp add: candidate_pool_def reviewers_of_def ex_db_def)
  have sh: "shuffle ex_rng (map UserID (candidate_pool ex_db ?p1 ?b)) =
      ([''d''], \<lambda>k. ex_rng (Suc k))"
    by (simp add: pool shuffle_def Intn_def)
  from reassign_run [OF row nm u asg team _ sh] pool
  obtain rr db' where run:
    "Service_ReassignReviewer ''p1'' ''b'' (ex_db, ex_rng) = (Inr rr, (db', \<lambda>k. ex_rng (Suc k)))"
    and new: "rr_ReplacedBy rr = ''d''"
    by simp
  from reassign_success_replaces_one [of "''p1''" "''b''" ex_db ex_rng rr db' "\<lambda>k. ex_rng (Suc k)",
      THEN conjunct1, THEN mp, OF run]
  have s: "set (AssignedReviewers (rr_PR rr)) =
           insert (rr_ReplacedBy rr) (set (reviewers_of ex_db ''p1'') - {''b''})"
    and bs: "pull_request_reviewers db' =
           map (\<lambda>b. if b = (''p1'', ''b'') then (''p1'', rr_ReplacedBy rr) else b)
             (pull_request_reviewers ex_db)"
    by blast+
  have s2: "set (AssignedReviewers (rr_PR rr)) = {''c'', ''d''}"
    unfolding s new by (auto simp: reviewers_of_def ex_db_def)
  have bs2: "pull_request_reviewers db' =
        [(''p1'', ''c''), (''p1'', ''d''), (''p2'', ''a''), (''p3'', ''e'')]"
    unfolding bs new by (simp add: ex_db_def)
  have zz: "(''p1'', ''zz'') \<notin> set (pull_request_reviewers ex_db)"
    by (simp add: ex_db_def)
  with reassign_success_replaces_one [of "''p1''" "''zz''" ex_db ex_rng rr db' ex_rng]
  have "Repository_ReassignReviewer ex_db ''p1'' ''zz'' ''d'' =
     (Some (ErrOther ''no reviewer row updated''), ex_db)"
    by blast
  with run new s2 bs2 zz show ?thesis by blast
qed

section \<open>The failures of a reassignment\<close>

text \<open>
  C3. A reassignment checks in this order: a pull request that does not exist gives
  NotFound; a MERGED pull request gives PRMerged; an old user that does not exist gives
  NotFound; an old user who is not an assigned reviewer of the pull request gives
  NotAssigned; an empty candidate pool (active users of the old reviewer's existing team,
  without the assigned reviewers, the old reviewer and the author) gives NoCandidate. The
  five errors are different values (the two NotFound errors share their code and differ in
  their message). Whenever a reassignment fails, the store is exactly as before.
\<close>

theorem reassign_failures_in_order:
  "(\<not> pr_exists db prID \<longrightarrow>
      Service_ReassignReviewer prID oldUserID (db, g) =
        (Inl (DomainError ErrorCodeNotFound ''pull request not found''), (db, g))) \<and>
   (\<forall>row. find (\<lambda>p. r_id p = prID) (pull_requests db) = Some row \<longrightarrow>
      (r_status row = StatusMerged \<longrightarrow>
         Service_ReassignReviewer prID oldUserID (db, g) =
           (Inl (DomainError ErrorCodePRMerged ''cannot reassign on merged PR''), (db, g))) \<and>
      (r_status row \<noteq> StatusMerged \<and> \<not> user_exists db oldUserID \<longrightarrow>
         Service_ReassignReviewer prID oldUserID (db, g) =
           (Inl (DomainError ErrorCodeNotFound ''user not found''), (db, g))) \<and>
      (\<forall>oldUser.
         r_status row \<noteq> StatusMerged \<and>
         find (\<lambda>u. UserID u = oldUserID) (users db) = Some oldUser \<longrightarrow>
           (oldUserID \<notin> set (reviewers_of db prID) \<longrightarrow>
              Service_ReassignReviewer prID oldUserID (db, g) =
                (Inl (DomainError ErrorCodeNotAssigned ''reviewer is not assigned to this PR''),
                 (db, g))) \<and>
           (oldUserID \<in> set (reviewers_of db prID) \<and> team_exists db (TeamName oldUser) \<and>
            candidate_pool db row oldUser = [] \<longrightarrow>
              Service_ReassignReviewer prID oldUserID (db, g) =
                (Inl (DomainError ErrorCodeNoCandidate
                        ''no active replacement candidate in team''), (db, g))))) \<and>
   distinct [DomainError ErrorCodeNotFound ''pull request not found'',
             DomainError ErrorCodePRMerged ''cannot reassign on merged PR'',
             DomainError ErrorCodeNotFound ''user not found'',
             DomainError ErrorCodeNotAssigned ''reviewer is not assigned to this PR'',
             DomainError ErrorCodeNoCandidate ''no active replacement candidate in team''] \<and>
   (\<forall>err. fst (Service_ReassignReviewer prID oldUserID (db, g)) = Inl err \<longrightarrow>
      fst (snd (Service_ReassignReviewer prID oldUserID (db, g))) = db)"
proof (intro conjI allI impI)
  fix err
  assume "fst (Service_ReassignReviewer prID oldUserID (db, g)) = Inl err"
  then show "fst (snd (Service_ReassignReviewer prID oldUserID (db, g))) = db"
    using service_reassign_failure_keeps_store [of prID oldUserID db g err]
    by (cases "Service_ReassignReviewer prID oldUserID (db, g)") auto
qed (simp_all add: reassign_pr_missing reassign_pr_merged reassign_user_missing
    reassign_not_assigned reassign_no_candidate)


theorem reassign_failures_in_order_witness:
  "\<not> pr_exists ex_db ''p9'' \<and>
   Service_ReassignReviewer ''p9'' ''zz'' (ex_db, ex_rng) =
     (Inl (DomainError ErrorCodeNotFound ''pull request not found''), (ex_db, ex_rng)) \<and>
   Service_ReassignReviewer ''p2'' ''zz'' (ex_db, ex_rng) =
     (Inl (DomainError ErrorCodePRMerged ''cannot reassign on merged PR''), (ex_db, ex_rng)) \<and>
   \<not> user_exists ex_db ''zz'' \<and>
   Service_ReassignReviewer ''p1'' ''zz'' (ex_db, ex_rng) =
     (Inl (DomainError ErrorCodeNotFound ''user not found''), (ex_db, ex_rng)) \<and>
   ''d'' \<notin> set (reviewers_of ex_db ''p1'') \<and>
   Service_ReassignReviewer ''p1'' ''d'' (ex_db, ex_rng) =
     (Inl (DomainError ErrorCodeNotAssigned ''reviewer is not assigned to this PR''),
      (ex_db, ex_rng)) \<and>
   ''e'' \<in> set (reviewers_of ex_db ''p3'') \<and>
   Service_ReassignReviewer ''p3'' ''e'' (ex_db, ex_rng) =
     (Inl (DomainError ErrorCodeNoCandidate ''no active replacement candidate in team''),
      (ex_db, ex_rng))"
proof -
  let ?p1 = "\<lparr>r_id = ''p1'', r_name = ''one'', r_author_id = ''a'', r_status = StatusOpen,
          r_created_at = 5, r_merged_at = None\<rparr>"
  let ?p2 = "\<lparr>r_id = ''p2'', r_name = ''two'', r_author_id = ''b'', r_status = StatusMerged,
          r_created_at = 6, r_merged_at = Some 8\<rparr>"
  let ?p3 = "\<lparr>r_id = ''p3'', r_name = ''three'', r_author_id = ''a'', r_status = StatusOpen,
          r_created_at = 7, r_merged_at = None\<rparr>"
  let ?d = "\<lparr>UserID = ''d'', Username = ''D'', TeamName = ''core'', IsActive = True\<rparr>"
  let ?e = "\<lparr>UserID = ''e'', Username = ''E'', TeamName = ''ops'', IsActive = False\<rparr>"
  have p9: "\<not> pr_exists ex_db ''p9''"
    by (simp add: pr_exists_def ex_db_def)
  have p1: "find (\<lambda>p. r_id p = ''p1'') (pull_requests ex_db) = Some ?p1"
    and p2: "find (\<lambda>p. r_id p = ''p2'') (pull_requests ex_db) = Some ?p2"
    and p3: "find (\<lambda>p. r_id p = ''p3'') (pull_requests ex_db) = Some ?p3"
    by (simp_all add: ex_db_def)
  have zz: "\<not> user_exists ex_db ''zz''"
    by (simp add: user_exists_def ex_db_def)
  have d: "find (\<lambda>u. UserID u = ''d'') (users ex_db) = Some ?d"
    and e: "find (\<lambda>u. UserID u = ''e'') (users ex_db) = Some ?e"
    by (simp_all add: ex_db_def)
  have nd: "''d'' \<notin> set (reviewers_of ex_db ''p1'')"
    and ae: "''e'' \<in> set (reviewers_of ex_db ''p3'')"
    by (simp_all add: reviewers_of_def ex_db_def)
  have ops: "team_exists ex_db (TeamName ?e)"
    by (simp add: team_exists_def ex_db_def)
  have pool: "candidate_pool ex_db ?p3 ?e = []"
    by (simp add: candidate_pool_def ex_db_def)
  from p9 reassign_failures_in_order [of ex_db "''p9''" "''zz''" ex_rng]
  have 1: "Service_ReassignReviewer ''p9'' ''zz'' (ex_db, ex_rng) =
     (Inl (DomainError ErrorCodeNotFound ''pull request not found''), (ex_db, ex_rng))"
    by blast
  from p2 reassign_failures_in_order [of ex_db "''p2''" "''zz''" ex_rng]
  have 2: "Service_ReassignReviewer ''p2'' ''zz'' (ex_db, ex_rng) =
     (Inl (DomainError ErrorCodePRMerged ''cannot reassign on merged PR''), (ex_db, ex_rng))"
    by simp
  from p1 zz reassign_failures_in_order [of ex_db "''p1''" "''zz''" ex_rng]
  have 3: "Service_ReassignReviewer ''p1'' ''zz'' (ex_db, ex_rng) =
     (Inl (DomainError ErrorCodeNotFound ''user not found''), (ex_db, ex_rng))"
    by simp
  from p1 d nd reassign_failures_in_order [of ex_db "''p1''" "''d''" ex_rng]
  have 4: "Service_ReassignReviewer ''p1'' ''d'' (ex_db, ex_rng) =
     (Inl (DomainError ErrorCodeNotAssigned ''reviewer is not assigned to this PR''),
      (ex_db, ex_rng))"
    by simp
  from p3 e ae ops pool reassign_failures_in_order [of ex_db "''p3''" "''e''" ex_rng]
  have 5: "Service_ReassignReviewer ''p3'' ''e'' (ex_db, ex_rng) =
     (Inl (DomainError ErrorCodeNoCandidate ''no active replacement candidate in team''),
      (ex_db, ex_rng))"
    by simp
  from p9 zz nd ae 1 2 3 4 5 show ?thesis by blast
qed

section \<open>Reassignment and removal in bulk deactivation\<close>



section \<open>Validation in bulk deactivation\<close>

text \<open>
  C5. In a store with distinct user ids, bulk deactivation takes the ids in input order.
  When the ids before some id all name users of the given team and that id names no user,
  or a user of another team, the operation stops there with NotFound: the returned
  deactivated list is exactly the ids before it, in input order, the counters are zero,
  and in the store exactly the users named before it have lost their active flag. When
  every id names a user of the team, the first loop ends without error, having recorded
  every id in input order and cleared the active flag of each of these users.
\<close>

theorem bulk_validation_is_sequential:
  assumes d: "distinct (map UserID (users db))"
  shows
  "(\<forall>pre bad post.
      userIDs = pre @ bad # post \<and> (\<forall>uid \<in> set pre. valid_member db teamName uid) \<and>
      \<not> valid_member db teamName bad \<longrightarrow>
      Service_DeactivateTeamUsersAndReassign teamName userIDs (db, g) =
        ((\<lparr>b_TeamName = teamName, b_Deactivated = pre, b_ReassignedReviewers = 0,
           b_RemovedReviewers = 0, b_AffectedPullRequests = 0\<rparr>,
          Some (DomainError ErrorCodeNotFound (abort_message db teamName bad))),
         (deactivate_all pre db, g))) \<and>
   ((\<forall>uid \<in> set userIDs. valid_member db teamName uid) \<longrightarrow>
      deactivate_loop teamName userIDs res [] db =
        (None, res\<lparr>b_Deactivated := b_Deactivated res @ userIDs\<rparr>, userIDs,
         deactivate_all userIDs db))"
proof (intro conjI allI impI)
  fix pre bad post
  assume h: "userIDs = pre @ bad # post \<and> (\<forall>uid \<in> set pre. valid_member db teamName uid) \<and>
      \<not> valid_member db teamName bad"
  let ?res = "\<lparr>b_TeamName = teamName, b_Deactivated = [], b_ReassignedReviewers = 0,
                 b_RemovedReviewers = 0, b_AffectedPullRequests = 0\<rparr>"
  have "deactivate_loop teamName (pre @ bad # post) ?res [] db =
         (Some (DomainError ErrorCodeNotFound (abort_message db teamName bad)),
          ?res\<lparr>b_Deactivated := b_Deactivated ?res @ pre\<rparr>, [] @ pre, deactivate_all pre db)"
    using d h by (intro deactivate_loop_abort) simp_all
  then show "Service_DeactivateTeamUsersAndReassign teamName userIDs (db, g) =
        ((\<lparr>b_TeamName = teamName, b_Deactivated = pre, b_ReassignedReviewers = 0,
           b_RemovedReviewers = 0, b_AffectedPullRequests = 0\<rparr>,
          Some (DomainError ErrorCodeNotFound (abort_message db teamName bad))),
         (deactivate_all pre db, g))"
    using h by (simp add: Service_DeactivateTeamUsersAndReassign_def del: deactivate_loop.simps)
next
  assume "\<forall>uid \<in> set userIDs. valid_member db teamName uid"
  with d show "deactivate_loop teamName userIDs res [] db =
        (None, res\<lparr>b_Deactivated := b_Deactivated res @ userIDs\<rparr>, userIDs,
         deactivate_all userIDs db)"
    using deactivate_loop_valid [of db userIDs teamName res "[]"] by simp
qed

theorem bulk_validation_is_sequential_witness:
  "distinct (map UserID (users ex_db)) \<and>
   valid_member ex_db ''core'' ''b'' \<and> \<not> valid_member ex_db ''core'' ''zz'' \<and>
   \<not> valid_member ex_db ''core'' ''e'' \<and>
   Service_DeactivateTeamUsersAndReassign ''core'' [''b'', ''zz'', ''c''] (ex_db, ex_rng) =
     ((\<lparr>b_TeamName = ''core'', b_Deactivated = [''b''], b_ReassignedReviewers = 0,
        b_RemovedReviewers = 0, b_AffectedPullRequests = 0\<rparr>,
       Some (DomainError ErrorCodeNotFound ''user zz not found'')),
      (deactivate_all [''b''] ex_db, ex_rng)) \<and>
   Service_DeactivateTeamUsersAndReassign ''core'' [''e'', ''b''] (ex_db, ex_rng) =
     ((\<lparr>b_TeamName = ''core'', b_Deactivated = [], b_ReassignedReviewers = 0,
        b_RemovedReviewers = 0, b_AffectedPullRequests = 0\<rparr>,
       Some (DomainError ErrorCodeNotFound ''user e does not belong to team core'')),
      (ex_db, ex_rng)) \<and>
   IsActive (the (find (\<lambda>u. UserID u = ''b'') (users ex_db))) \<and>
   \<not> IsActive (the (find (\<lambda>u. UserID u = ''b'') (users (deactivate_all [''b''] ex_db)))) \<and>
   valid_member ex_db ''core'' ''c'' \<and>
   deactivate_loop ''core'' [''b'', ''c'']
       \<lparr>b_TeamName = ''core'', b_Deactivated = [], b_ReassignedReviewers = 0,
        b_RemovedReviewers = 0, b_AffectedPullRequests = 0\<rparr> [] ex_db =
     (None,
      \<lparr>b_TeamName = ''core'', b_Deactivated = [''b'', ''c''], b_ReassignedReviewers = 0,
        b_RemovedReviewers = 0, b_AffectedPullRequests = 0\<rparr>,
      [''b'', ''c''], deactivate_all [''b'', ''c''] ex_db)"
proof -
  have d: "distinct (map UserID (users ex_db))"
    by (simp add: ex_db_def)
  have b: "valid_member ex_db ''core'' ''b''" and zz: "\<not> valid_member ex_db ''core'' ''zz''"
    and e: "\<not> valid_member ex_db ''core'' ''e''"
    by (simp_all add: valid_member_def ex_db_def)
  have mz: "abort_message ex_db ''core'' ''zz'' = ''user zz not found''"
    and me: "abort_message ex_db ''core'' ''e'' = ''user e does not belong to team core''"
    by (simp_all add: abort_message_def user_exists_def ex_db_def)
  have 1: "Service_DeactivateTeamUsersAndReassign ''core'' [''b'', ''zz'', ''c''] (ex_db, ex_rng) =
     ((\<lparr>b_TeamName = ''core'', b_Deactivated = [''b''], b_ReassignedReviewers = 0,
        b_RemovedReviewers = 0, b_AffectedPullRequests = 0\<rparr>,
       Some (DomainError ErrorCodeNotFound ''user zz not found'')),
      (deactivate_all [''b''] ex_db, ex_rng))"
    using bulk_validation_is_sequential [OF d, of "[''b'', ''zz'', ''c'']" "''core''" ex_rng,
        THEN conjunct1, THEN spec, THEN spec, THEN spec, of "[''b'']" "''zz''" "[''c'']"]
      b zz mz by simp
  have 2: "Service_DeactivateTeamUsersAndReassign ''core'' [''e'', ''b''] (ex_db, ex_rng) =
     ((\<lparr>b_TeamName = ''core'', b_Deactivated = [], b_ReassignedReviewers = 0,
        b_RemovedReviewers = 0, b_AffectedPullRequests = 0\<rparr>,
       Some (DomainError ErrorCodeNotFound ''user e does not belong to team core'')),
      (ex_db, ex_rng))"
    using bulk_validation_is_sequential [OF d, of "[''e'', ''b'']" "''core''" ex_rng,
        THEN conjunct1, THEN spec, THEN spec, THEN spec, of "[]" "''e''" "[''b'']"]
      e me by simp
  have 3: "IsActive (the (find (\<lambda>u. UserID u = ''b'') (users ex_db)))"
    "\<not> IsActive (the (find (\<lambda>u. UserID u = ''b'') (users (deactivate_all [''b''] ex_db))))"
    by (simp_all add: deactivate_all_def ex_db_def)
  have c: "valid_member ex_db ''core'' ''c''"
    by (simp add: valid_member_def ex_db_def)
  have 4: "deactivate_loop ''core'' [''b'', ''c'']
       \<lparr>b_TeamName = ''core'', b_Deactivated = [], b_ReassignedReviewers = 0,
        b_RemovedReviewers = 0, b_AffectedPullRequests = 0\<rparr> [] ex_db =
     (None,
      \<lparr>b_TeamName = ''core'', b_Deactivated = [''b'', ''c''], b_ReassignedReviewers = 0,
        b_RemovedReviewers = 0, b_AffectedPullRequests = 0\<rparr>,
      [''b'', ''c''], deactivate_all [''b'', ''c''] ex_db)"
    using bulk_validation_is_sequential [OF d, of "[''b'', ''c'']" "''core''" ex_rng
        "\<lparr>b_TeamName = ''core'', b_Deactivated = [], b_ReassignedReviewers = 0,
          b_RemovedReviewers = 0, b_AffectedPullRequests = 0\<rparr>", THEN conjunct2] b c
    by (simp del: deactivate_loop.simps)
  from d b zz e 1 2 3 c 4 show ?thesis by blast
qed

section \<open>Creating a team\<close>



section \<open>Bulk deactivation of no users\<close>

text \<open>
  C8. Bulk deactivation with an empty list of user ids changes nothing: for every team name
  and every state of the service it returns the team name, an empty deactivated list, the
  three counters at zero and no error, and the service is as before.
\<close>

theorem bulk_empty_is_noop:
  "Service_DeactivateTeamUsersAndReassign teamName [] s =
     ((\<lparr>b_TeamName = teamName, b_Deactivated = [], b_ReassignedReviewers = 0,
        b_RemovedReviewers = 0, b_AffectedPullRequests = 0\<rparr>, None), s)"
  by (simp add: Service_DeactivateTeamUsersAndReassign_def)

theorem bulk_empty_is_noop_witness:
  "Service_DeactivateTeamUsersAndReassign ''core'' [] (ex_db, ex_rng) =
     ((\<lparr>b_TeamName = ''core'', b_Deactivated = [], b_ReassignedReviewers = 0,
        b_RemovedReviewers = 0, b_AffectedPullRequests = 0\<rparr>, None), (ex_db, ex_rng))"
  using bulk_empty_is_noop [of "''core''" "(ex_db, ex_rng)"] by simp

section \<open>The reviews of a user\<close>

text \<open>
  C9. GetUserReviews returns the id it was given and no error, for every user id. For an id
  that no reviewer binding mentions the list of pull requests is empty; in a store that
  satisfies its constraints this covers every id without a user record.
\<close>

theorem get_user_reviews_never_fails:
  "(\<exists>prs. Service_GetUserReviews userID (db, g) = (userID, prs, None)) \<and>
   (userID \<notin> snd ` set (pull_request_reviewers db) \<longrightarrow>
      Service_GetUserReviews userID (db, g) = (userID, [], None)) \<and>
   (wf_db db \<and> \<not> user_exists db userID \<longrightarrow>
      Service_GetUserReviews userID (db, g) = (userID, [], None))"
  by (simp add: Service_GetUserReviews_def Repository_GetPRsForReviewer_def
      joined_rows_empty joined_rows_no_user)

theorem get_user_reviews_never_fails_witness:
  "wf_db ex_db \<and> \<not> user_exists ex_db ''zz'' \<and>
   ''d'' \<notin> snd ` set (pull_request_reviewers ex_db) \<and>
   Service_GetUserReviews ''zz'' (ex_db, ex_rng) = (''zz'', [], None) \<and>
   Service_GetUserReviews ''d'' (ex_db, ex_rng) = (''d'', [], None)"
proof -
  have h: "wf_db ex_db \<and> \<not> user_exists ex_db ''zz''"
    by (simp add: wf_ex_db) (simp add: ex_db_def user_exists_def)
  have e: "''d'' \<notin> snd ` set (pull_request_reviewers ex_db)"
    by (simp add: ex_db_def)
  from h e get_user_reviews_never_fails [of "''zz''" ex_db ex_rng]
    get_user_reviews_never_fails [of "''d''" ex_db ex_rng]
  show ?thesis by blast
qed

section \<open>Bulk deactivation of users that are already inactive\<close>

text \<open>
  C10. In a store with distinct user ids, whenever bulk deactivation returns without error
  its deactivated list is the input list, same ids in the same order; every listed user,
  whether active or already inactive at the time of the call, is then an inactive member
  of the team and is a reviewer of no OPEN pull request: each such binding has been
  reassigned or removed. Moreover, when every listed id names a user of the team, the
  operation returns the same result and leaves the same store whether or not some of
  the listed users were deactivated beforehand.
\<close>

theorem bulk_success_covers_every_listed_user:
  assumes d: "distinct (map UserID (users db))"
  shows
  "(Service_DeactivateTeamUsersAndReassign teamName userIDs (db, g) = ((res, None), (db', g')) \<longrightarrow>
      b_Deactivated res = userIDs \<and>
      (\<forall>uid \<in> set userIDs.
         valid_member db' teamName uid \<and>
         (\<forall>u \<in> set (users db'). UserID u = uid \<longrightarrow> \<not> IsActive u) \<and>
         open_reviews db' uid = [])) \<and>
   (\<forall>xs. set xs \<subseteq> set userIDs \<and> (\<forall>uid \<in> set userIDs. valid_member db teamName uid) \<longrightarrow>
      Service_DeactivateTeamUsersAndReassign teamName userIDs (deactivate_all xs db, g) =
      Service_DeactivateTeamUsersAndReassign teamName userIDs (db, g))"
proof (rule conjI)
  show "\<forall>xs. set xs \<subseteq> set userIDs \<and> (\<forall>uid \<in> set userIDs. valid_member db teamName uid) \<longrightarrow>
      Service_DeactivateTeamUsersAndReassign teamName userIDs (deactivate_all xs db, g) =
      Service_DeactivateTeamUsersAndReassign teamName userIDs (db, g)"
    using bulk_pre_deactivated [OF d, of userIDs teamName _ g] by blast
next
  show "Service_DeactivateTeamUsersAndReassign teamName userIDs (db, g) = ((res, None), (db', g')) \<longrightarrow>
      b_Deactivated res = userIDs \<and>
      (\<forall>uid \<in> set userIDs.
         valid_member db' teamName uid \<and>
         (\<forall>u \<in> set (users db'). UserID u = uid \<longrightarrow> \<not> IsActive u) \<and>
         open_reviews db' uid = [])"
  proof
    assume ok: "Service_DeactivateTeamUsersAndReassign teamName userIDs (db, g) =
        ((res, None), (db', g'))"
    from bulk_success [OF d ok] have dl: "b_Deactivated res = userIDs"
      and us: "users db' = users (deactivate_all userIDs db)"
      and gone: "\<forall>uid \<in> set userIDs. open_reviews db' uid = []"
      by blast+
    have vm: "valid_member db' teamName uid =
        valid_member (deactivate_all userIDs db) teamName uid" for uid
      unfolding valid_member_def us ..
    have "\<forall>uid \<in> set userIDs.
         valid_member db' teamName uid \<and>
         (\<forall>u \<in> set (users db'). UserID u = uid \<longrightarrow> \<not> IsActive u) \<and>
         open_reviews db' uid = []"
    proof
      fix uid assume uid: "uid \<in> set userIDs"
      have "valid_member db teamName uid"
        using bulk_success_valid [OF d ok] uid by blast
      then have 1: "valid_member db' teamName uid" by (simp add: vm)
      have 2: "\<forall>u \<in> set (users db'). UserID u = uid \<longrightarrow> \<not> IsActive u"
        unfolding us using deactivate_all_inactive [of userIDs db] uid by blast
      have 3: "open_reviews db' uid = []" using gone uid by blast
      from 1 2 3 show "valid_member db' teamName uid \<and>
         (\<forall>u \<in> set (users db'). UserID u = uid \<longrightarrow> \<not> IsActive u) \<and>
         open_reviews db' uid = []" by blast
    qed
    with dl show "b_Deactivated res = userIDs \<and>
      (\<forall>uid \<in> set userIDs.
         valid_member db' teamName uid \<and>
         (\<forall>u \<in> set (users db'). UserID u = uid \<longrightarrow> \<not> IsActive u) \<and>
         open_reviews db' uid = [])" by blast
  qed
qed


theorem bulk_success_covers_every_listed_user_witness:
  "distinct (map UserID (users ex_db)) \<and>
   \<not> IsActive (the (find (\<lambda>u. UserID u = ''e'') (users ex_db))) \<and>
   open_reviews ex_db ''e'' \<noteq> [] \<and>
   fst (Service_DeactivateTeamUsersAndReassign ''ops'' [''e''] (ex_db, ex_rng)) =
     (\<lparr>b_TeamName = ''ops'', b_Deactivated = [''e''], b_ReassignedReviewers = 0,
       b_RemovedReviewers = 1, b_AffectedPullRequests = 1\<rparr>, None) \<and>
   open_reviews (fst (snd (Service_DeactivateTeamUsersAndReassign ''ops'' [''e''] (ex_db, ex_rng))))
     ''e'' = [] \<and>
   valid_member ex_db ''core'' ''b'' \<and> valid_member ex_db ''core'' ''c'' \<and>
   Service_DeactivateTeamUsersAndReassign ''core'' [''b'', ''c''] (deactivate_all [''b''] ex_db, ex_rng) =
   Service_DeactivateTeamUsersAndReassign ''core'' [''b'', ''c''] (ex_db, ex_rng)"
proof -
  let ?R = "\<lparr>b_TeamName = ''ops'', b_Deactivated = [''e''], b_ReassignedReviewers = 0,
       b_RemovedReviewers = 1, b_AffectedPullRequests = 1\<rparr>"
  let ?run = "Service_DeactivateTeamUsersAndReassign ''ops'' [''e''] (ex_db, ex_rng)"
  have d: "distinct (map UserID (users ex_db))"
    by (simp add: ex_db_def)
  have e: "\<not> IsActive (the (find (\<lambda>u. UserID u = ''e'') (users ex_db)))"
    by (simp add: ex_db_def)
  have o: "open_reviews ex_db ''e'' \<noteq> []"
    by (simp add: open_reviews_def ex_db_def)
  have r: "fst ?run = (?R, None)"
    by code_simp
  then have ok: "?run = ((?R, None), (fst (snd ?run), snd (snd ?run)))"
    by (simp add: prod_eq_iff)
  from bulk_success_covers_every_listed_user [OF d, of "''ops''" "[''e'']" ex_rng ?R
      "fst (snd ?run)" "snd (snd ?run)", THEN conjunct1, THEN mp, OF ok]
  have g: "open_reviews (fst (snd ?run)) ''e'' = []" by simp
  have v: "valid_member ex_db ''core'' ''b''" "valid_member ex_db ''core'' ''c''"
    by (simp_all add: valid_member_def ex_db_def)
  from bulk_success_covers_every_listed_user [OF d, of "''core''" "[''b'', ''c'']" ex_rng,
      THEN conjunct2, THEN spec, of "[''b'']"] v
  have p: "Service_DeactivateTeamUsersAndReassign ''core'' [''b'', ''c''] (deactivate_all [''b''] ex_db, ex_rng) =
   Service_DeactivateTeamUsersAndReassign ''core'' [''b'', ''c''] (ex_db, ex_rng)"
    by simp
  from d e o r g v p show ?thesis by blast
qed

end
